theory Spec2Isabelle
  imports Complex_Main "HOL-Library.Char_ord" "HOL-Library.List_Lexorder" "HOL-Library.Sublist"
begin

section \<open>The session telemetry aggregator (ProcessInfo.cpp)\<close>

text \<open>
  The class \<open>CProcessInfo\<close> keeps the decode, render and playback attributes of one
  playback session and republishes most of them to an external \<open>CDataCacheCore\<close>.
  The embedding is sequential: every method takes the object and returns it updated.
  The critical sections are recursive mutexes; a \<open>std::unique_lock\<close> takes one where it is
  declared and releases it when the method returns. On a single thread that never blocks,
  so the model records it: the world keeps the sequence of sections taken and released
  and of calls made to a cache, in the order they happen.

  Numbers: \<open>int\<close>, \<open>int64_t\<close> and \<open>time_t\<close> values are \<open>int\<close>, \<open>unsigned int\<close> is
  \<open>nat\<close> (no method computes with them, they are only stored and copied); \<open>float\<close> and
  \<open>double\<close> values are the reals they denote, and comparisons between them are exact.
  A literal is the value of its type nearest to what is written: \<open>0.75f\<close> is 3/4, and
  \<open>1.55f\<close> is the single-precision number 6501171/4194304, a little below 1.55.
\<close>

subsection \<open>Types declared outside these sources\<close>

text \<open>
  The enumerations and metadata structs come from headers that are not part of the
  sources at hand. Each enumeration is the enumerators this file names plus one
  constructor for all others; each metadata struct is its value-initialised object
  (\<open>{}\<close> in the source) plus one constructor for any other contents.
\<close>

datatype EINTERLACEMETHOD =
    VS_INTERLACEMETHOD_NONE
  | VS_INTERLACEMETHOD_DEINTERLACE
  | VS_INTERLACEMETHOD_DEINTERLACE_HALF
  | VS_INTERLACEMETHOD_other nat

datatype AVPixelFormat = AV_PIX_FMT_YUV420P | AV_PIX_FMT_other nat

datatype StreamHdrType = HDR_TYPE_NONE | HDR_TYPE_other nat

datatype AVColorSpace = AVCOL_SPC_UNSPECIFIED | AVCOL_SPC_other nat

datatype AVColorRange = AVCOL_RANGE_UNSPECIFIED | AVCOL_RANGE_other nat

datatype AVColorPrimaries = AVCOL_PRI_UNSPECIFIED | AVCOL_PRI_other nat

datatype AVColorTransferCharacteristic = AVCOL_TRC_UNSPECIFIED | AVCOL_TRC_other nat

datatype DtsXType = DTS_X_NONE | DTS_X_other nat

datatype DOVIFrameMetadata = DOVIFrameMetadata_init | DOVIFrameMetadata_other nat

datatype DOVIStreamMetadata = DOVIStreamMetadata_init | DOVIStreamMetadata_other nat

datatype DOVIStreamInfo = DOVIStreamInfo_init | DOVIStreamInfo_other nat

datatype HDRStaticMetadataInfo = HDRStaticMetadataInfo_init | HDRStaticMetadataInfo_other nat

datatype CVideoSettings = CVideoSettings nat

text \<open>Of \<open>CRenderInfo\<close> the file reads one member, the renderer's deinterlacing methods.\<close>

record CRenderInfo =
  renderInfo_deintMethods :: "EINTERLACEMETHOD list"

subsection \<open>The data cache, as the aggregator sees it\<close>

text \<open>
  \<open>CDataCacheCore\<close> is external: the aggregator only calls its setters. A cache object
  is therefore the sequence of calls it has received, oldest first; one constructor per
  cache method this file calls, with the arguments of the call.
\<close>

datatype DataCacheCall =
    DC_SetVideoPts real
  | DC_SetVideoDecoderName string bool
  | DC_SetVideoDeintMethod string
  | DC_SetVideoPixelFormat string
  | DC_SetVideoDimensions int int
  | DC_SetVideoFps real
  | DC_SetVideoDAR real
  | DC_SetStateSeeking bool
  | DC_SetVideoStereoMode string
  | DC_SetVideoBitDepth int
  | DC_SetVideoHdrType StreamHdrType
  | DC_SetVideoSourceHdrType StreamHdrType
  | DC_SetVideoSourceAdditionalHdrType StreamHdrType
  | DC_SetVideoColorSpace AVColorSpace
  | DC_SetVideoColorRange AVColorRange
  | DC_SetVideoColorPrimaries AVColorPrimaries
  | DC_SetVideoColorTransferCharacteristic AVColorTransferCharacteristic
  | DC_SetVideoDoViFrameMetadata DOVIFrameMetadata
  | DC_SetVideoDoViStreamMetadata DOVIStreamMetadata
  | DC_SetVideoDoViStreamInfo DOVIStreamInfo
  | DC_SetVideoSourceDoViStreamInfo DOVIStreamInfo
  | DC_SetVideoDoViCodecFourCC string
  | DC_SetVideoHDRStaticMetadataInfo HDRStaticMetadataInfo
  | DC_SetVideoVS10Mode nat
  | DC_SetVideoLiveBitRate real
  | DC_SetVideoQueueLevel int
  | DC_SetVideoQueueDataLevel int
  | DC_SetVideoInterlaced bool
  | DC_SetAudioDecoderName string
  | DC_SetAudioChannels string
  | DC_SetAudioSampleRate int
  | DC_SetAudioBitsPerSample int
  | DC_SetAudioIsDolbyAtmos bool
  | DC_SetAudioDtsXType DtsXType
  | DC_SetAudioLiveBitRate real
  | DC_SetAudioQueueLevel int
  | DC_SetAudioQueueDataLevel int
  | DC_SetRenderClockSync bool
  | DC_SeekFinished int
  | DC_SetSpeed real real
  | DC_SetFrameAdvance bool
  | DC_SetGuiRender bool
  | DC_SetVideoRender bool
  | DC_SetPlayTimes int int int int

text \<open>
  A \<open>CDataCacheCore *\<close> is \<open>None\<close> (the null pointer) or the address of a cache object.
  Calling a method through the null pointer has no defined result: it is the error
  \<open>NullPointerDereference\<close>.
\<close>

type_synonym cache_ptr = nat

datatype error = NullPointerDereference

text \<open>
  The five critical sections of the object, and what the trace records: a section taken,
  a section released, a call made to the cache at an address.
\<close>

datatype CCriticalSection =
    m_videoCodecSection
  | m_audioCodecSection
  | m_renderSection
  | m_stateSection
  | m_settingsSection

datatype event =
    Locked CCriticalSection
  | Unlocked CCriticalSection
  | Called cache_ptr DataCacheCall

subsection \<open>The object\<close>

record CProcessInfo =
  m_videoPts :: real
  m_videoIsHWDecoder :: bool
  m_videoDecoderName :: string
  m_videoDeintMethod :: string
  m_videoPixelFormat :: string
  m_videoStereoMode :: string
  m_videoWidth :: int
  m_videoHeight :: int
  m_videoFPS :: real
  m_videoDAR :: real
  m_videoBitDepth :: int
  m_videoHdrType :: StreamHdrType
  m_videoSourceHdrType :: StreamHdrType
  m_videoSourceAdditionalHdrType :: StreamHdrType
  m_videoColorSpace :: AVColorSpace
  m_videoColorRange :: AVColorRange
  m_videoColorPrimaries :: AVColorPrimaries
  m_videoColorTransferCharacteristic :: AVColorTransferCharacteristic
  m_videoDoViFrameMetadata :: DOVIFrameMetadata
  m_videoDoViStreamMetadata :: DOVIStreamMetadata
  m_videoDoViStreamInfo :: DOVIStreamInfo
  m_videoSourceDoViStreamInfo :: DOVIStreamInfo
  m_videoDoViCodecFourCC :: string
  m_videoHDRStaticMetadataInfo :: HDRStaticMetadataInfo
  m_videoVS10Mode :: nat
  m_videoLiveBitRate :: real
  m_videoQueueLevel :: int
  m_videoQueueDataLevel :: int
  m_videoIsInterlaced :: bool
  m_deintMethods :: "EINTERLACEMETHOD list"
  m_deintMethodDefault :: EINTERLACEMETHOD
  m_pixFormats :: "AVPixelFormat list"
  m_audioDecoderName :: string
  m_audioChannels :: string
  m_audioSampleRate :: int
  m_audioBitsPerSample :: int
  m_audioIsDolbyAtmos :: bool
  m_audioDtsXType :: DtsXType
  m_audioLiveBitRate :: real
  m_audioQueueLevel :: int
  m_audioQueueDataLevel :: int
  m_isClockSync :: bool
  m_renderInfo :: CRenderInfo
  m_renderBufQueued :: int
  m_renderBufDiscard :: int
  m_renderBufFree :: int
  m_stateSeeking :: bool
  m_realTimeStream :: bool
  m_speed :: real
  m_newSpeed :: real
  m_tempo :: real
  m_newTempo :: real
  m_frameAdvance :: bool
  m_levelVQ :: int
  m_renderGuiLayer :: bool
  m_renderVideoLayer :: bool
  m_startTime :: int
  m_time :: int
  m_timeMin :: int
  m_timeMax :: int
  m_videoSettings :: CVideoSettings
  m_dataCache :: "cache_ptr option"

text \<open>
  The world a method runs in: the object, the cache objects that exist, each by its
  address, and the trace.
\<close>

record world = CProcessInfo +
  caches :: "cache_ptr \<Rightarrow> DataCacheCall list"
  events :: "event list"

text \<open>
  \<open>std::unique_lock<CCriticalSection> lock(section)\<close> takes the section; the end of the
  method's body releases it. \<open>unlock_result\<close> is that release for a method whose body
  can fail: nothing is released after a null-pointer dereference.
\<close>

definition unique_lock :: "CCriticalSection \<Rightarrow> world \<Rightarrow> world" where
  "unique_lock section s = s\<lparr>events := events s @ [Locked section]\<rparr>"

definition unlock :: "CCriticalSection \<Rightarrow> world \<Rightarrow> world" where
  "unlock section s = s\<lparr>events := events s @ [Unlocked section]\<rparr>"

definition unlock_result :: "CCriticalSection \<Rightarrow> error + world \<Rightarrow> error + world" where
  "unlock_result section r = (case r of Inl e \<Rightarrow> Inl e | Inr s \<Rightarrow> Inr (unlock section s))"

text \<open>\<open>p->f(args)\<close>: the cache at \<open>p\<close> receives the call, unless \<open>p\<close> is null.\<close>

definition cache_call :: "cache_ptr option \<Rightarrow> DataCacheCall \<Rightarrow> world \<Rightarrow> error + world" where
  "cache_call p c s =
     (case p of
        None \<Rightarrow> Inl NullPointerDereference
      | Some a \<Rightarrow> Inr (s\<lparr>caches := (caches s)(a := caches s a @ [c]),
                         events := events s @ [Called a c]\<rparr>))"

text \<open>A block of consecutive calls through the same pointer, in order.\<close>

fun cache_calls :: "cache_ptr option \<Rightarrow> DataCacheCall list \<Rightarrow> world \<Rightarrow> error + world" where
  "cache_calls p [] s = Inr s"
| "cache_calls p (c # cs) s =
     (case cache_call p c s of Inl e \<Rightarrow> Inl e | Inr s' \<Rightarrow> cache_calls p cs s')"

text \<open>Statement sequencing: the rest runs only if the first part returned.\<close>

definition and_then :: "error + world \<Rightarrow> (world \<Rightarrow> error + world) \<Rightarrow> error + world" where
  "and_then r f = (case r of Inl e \<Rightarrow> Inl e | Inr s \<Rightarrow> f s)"

subsection \<open>Setters\<close>

text \<open>
  Each setter takes the section its first statement names, stores its arguments and,
  where the source has \<open>if (m_dataCache) m_dataCache->...\<close>, forwards to the bound
  cache; the section is released when the setter returns. \<open>SetLevelVQ\<close> takes no section.
  \<open>SetGuiRender\<close> and \<open>SetVideoRender\<close> forward only when the flag changes. The setters
  with no cache call in the source cannot fail and return the object directly.
\<close>

definition SetVideoPts :: "real \<Rightarrow> world \<Rightarrow> error + world" where
  "SetVideoPts pts s0 =
     (let s1 = unique_lock m_videoCodecSection s0;
          s = s1\<lparr>m_videoPts := pts\<rparr> in
      unlock_result m_videoCodecSection
       (if m_dataCache s \<noteq> None
        then cache_call (m_dataCache s) (DC_SetVideoPts (m_videoPts s)) s
        else Inr s))"

definition SetVideoDecoderName :: "string \<Rightarrow> bool \<Rightarrow> world \<Rightarrow> error + world" where
  "SetVideoDecoderName name isHw s0 =
     (let s1 = unique_lock m_videoCodecSection s0;
          s = s1\<lparr>m_videoIsHWDecoder := isHw, m_videoDecoderName := name\<rparr> in
      unlock_result m_videoCodecSection
       (if m_dataCache s \<noteq> None
        then cache_call (m_dataCache s) (DC_SetVideoDecoderName (m_videoDecoderName s) (m_videoIsHWDecoder s)) s
        else Inr s))"

definition SetVideoDeintMethod :: "string \<Rightarrow> world \<Rightarrow> error + world" where
  "SetVideoDeintMethod method s0 =
     (let s1 = unique_lock m_videoCodecSection s0;
          s = s1\<lparr>m_videoDeintMethod := method\<rparr> in
      unlock_result m_videoCodecSection
       (if m_dataCache s \<noteq> None
        then cache_call (m_dataCache s) (DC_SetVideoDeintMethod (m_videoDeintMethod s)) s
        else Inr s))"

definition SetVideoPixelFormat :: "string \<Rightarrow> world \<Rightarrow> error + world" where
  "SetVideoPixelFormat pixFormat s0 =
     (let s1 = unique_lock m_videoCodecSection s0;
          s = s1\<lparr>m_videoPixelFormat := pixFormat\<rparr> in
      unlock_result m_videoCodecSection
       (if m_dataCache s \<noteq> None
        then cache_call (m_dataCache s) (DC_SetVideoPixelFormat (m_videoPixelFormat s)) s
        else Inr s))"

definition SetVideoStereoMode :: "string \<Rightarrow> world \<Rightarrow> error + world" where
  "SetVideoStereoMode mode s0 =
     (let s1 = unique_lock m_videoCodecSection s0;
          s = s1\<lparr>m_videoStereoMode := mode\<rparr> in
      unlock_result m_videoCodecSection
       (if m_dataCache s \<noteq> None
        then cache_call (m_dataCache s) (DC_SetVideoStereoMode (m_videoStereoMode s)) s
        else Inr s))"

definition SetVideoDimensions :: "int \<Rightarrow> int \<Rightarrow> world \<Rightarrow> error + world" where
  "SetVideoDimensions width height s0 =
     (let s1 = unique_lock m_videoCodecSection s0;
          s = s1\<lparr>m_videoWidth := width, m_videoHeight := height\<rparr> in
      unlock_result m_videoCodecSection
       (if m_dataCache s \<noteq> None
        then cache_call (m_dataCache s) (DC_SetVideoDimensions (m_videoWidth s) (m_videoHeight s)) s
        else Inr s))"

definition SetVideoBitDepth :: "int \<Rightarrow> world \<Rightarrow> error + world" where
  "SetVideoBitDepth bitDepth s0 =
     (let s1 = unique_lock m_videoCodecSection s0;
          s = s1\<lparr>m_videoBitDepth := bitDepth\<rparr> in
      unlock_result m_videoCodecSection
       (if m_dataCache s \<noteq> None
        then cache_call (m_dataCache s) (DC_SetVideoBitDepth (m_videoBitDepth s)) s
        else Inr s))"

definition SetVideoHdrType :: "StreamHdrType \<Rightarrow> world \<Rightarrow> error + world" where
  "SetVideoHdrType hdrType s0 =
     (let s1 = unique_lock m_videoCodecSection s0;
          s = s1\<lparr>m_videoHdrType := hdrType\<rparr> in
      unlock_result m_videoCodecSection
       (if m_dataCache s \<noteq> None
        then cache_call (m_dataCache s) (DC_SetVideoHdrType (m_videoHdrType s)) s
        else Inr s))"

definition SetVideoSourceHdrType :: "StreamHdrType \<Rightarrow> world \<Rightarrow> error + world" where
  "SetVideoSourceHdrType hdrType s0 =
     (let s1 = unique_lock m_videoCodecSection s0;
          s = s1\<lparr>m_videoSourceHdrType := hdrType\<rparr> in
      unlock_result m_videoCodecSection
       (if m_dataCache s \<noteq> None
        then cache_call (m_dataCache s) (DC_SetVideoSourceHdrType (m_videoSourceHdrType s)) s
        else Inr s))"

definition SetVideoSourceAdditionalHdrType :: "StreamHdrType \<Rightarrow> world \<Rightarrow> error + world" where
  "SetVideoSourceAdditionalHdrType hdrType s0 =
     (let s1 = unique_lock m_videoCodecSection s0;
          s = s1\<lparr>m_videoSourceAdditionalHdrType := hdrType\<rparr> in
      unlock_result m_videoCodecSection
       (if m_dataCache s \<noteq> None
        then cache_call (m_dataCache s) (DC_SetVideoSourceAdditionalHdrType (m_videoSourceAdditionalHdrType s)) s
        else Inr s))"

definition SetVideoColorSpace :: "AVColorSpace \<Rightarrow> world \<Rightarrow> error + world" where
  "SetVideoColorSpace colorSpace s0 =
     (let s1 = unique_lock m_videoCodecSection s0;
          s = s1\<lparr>m_videoColorSpace := colorSpace\<rparr> in
      unlock_result m_videoCodecSection
       (if m_dataCache s \<noteq> None
        then cache_call (m_dataCache s) (DC_SetVideoColorSpace (m_videoColorSpace s)) s
        else Inr s))"

definition SetVideoColorRange :: "AVColorRange \<Rightarrow> world \<Rightarrow> error + world" where
  "SetVideoColorRange colorRange s0 =
     (let s1 = unique_lock m_videoCodecSection s0;
          s = s1\<lparr>m_videoColorRange := colorRange\<rparr> in
      unlock_result m_videoCodecSection
       (if m_dataCache s \<noteq> None
        then cache_call (m_dataCache s) (DC_SetVideoColorRange (m_videoColorRange s)) s
        else Inr s))"

definition SetVideoColorPrimaries :: "AVColorPrimaries \<Rightarrow> world \<Rightarrow> error + world" where
  "SetVideoColorPrimaries colorPrimaries s0 =
     (let s1 = unique_lock m_videoCodecSection s0;
          s = s1\<lparr>m_videoColorPrimaries := colorPrimaries\<rparr> in
      unlock_result m_videoCodecSection
       (if m_dataCache s \<noteq> None
        then cache_call (m_dataCache s) (DC_SetVideoColorPrimaries (m_videoColorPrimaries s)) s
        else Inr s))"

definition SetVideoColorTransferCharacteristic :: "AVColorTransferCharacteristic \<Rightarrow> world \<Rightarrow> error + world" where
  "SetVideoColorTransferCharacteristic colorTransferCharacteristic s0 =
     (let s1 = unique_lock m_videoCodecSection s0;
          s = s1\<lparr>m_videoColorTransferCharacteristic := colorTransferCharacteristic\<rparr> in
      unlock_result m_videoCodecSection
       (if m_dataCache s \<noteq> None
        then cache_call (m_dataCache s) (DC_SetVideoColorTransferCharacteristic (m_videoColorTransferCharacteristic s)) s
        else Inr s))"

definition SetVideoDoViFrameMetadata :: "DOVIFrameMetadata \<Rightarrow> world \<Rightarrow> error + world" where
  "SetVideoDoViFrameMetadata v s0 =
     (let s1 = unique_lock m_videoCodecSection s0;
          s = s1\<lparr>m_videoDoViFrameMetadata := v\<rparr> in
      unlock_result m_videoCodecSection
       (if m_dataCache s \<noteq> None
        then cache_call (m_dataCache s) (DC_SetVideoDoViFrameMetadata (m_videoDoViFrameMetadata s)) s
        else Inr s))"

definition SetVideoDoViStreamMetadata :: "DOVIStreamMetadata \<Rightarrow> world \<Rightarrow> error + world" where
  "SetVideoDoViStreamMetadata v s0 =
     (let s1 = unique_lock m_videoCodecSection s0;
          s = s1\<lparr>m_videoDoViStreamMetadata := v\<rparr> in
      unlock_result m_videoCodecSection
       (if m_dataCache s \<noteq> None
        then cache_call (m_dataCache s) (DC_SetVideoDoViStreamMetadata (m_videoDoViStreamMetadata s)) s
        else Inr s))"

definition SetVideoDoViStreamInfo :: "DOVIStreamInfo \<Rightarrow> world \<Rightarrow> error + world" where
  "SetVideoDoViStreamInfo v s0 =
     (let s1 = unique_lock m_videoCodecSection s0;
          s = s1\<lparr>m_videoDoViStreamInfo := v\<rparr> in
      unlock_result m_videoCodecSection
       (if m_dataCache s \<noteq> None
        then cache_call (m_dataCache s) (DC_SetVideoDoViStreamInfo (m_videoDoViStreamInfo s)) s
        else Inr s))"

definition SetVideoSourceDoViStreamInfo :: "DOVIStreamInfo \<Rightarrow> world \<Rightarrow> error + world" where
  "SetVideoSourceDoViStreamInfo v s0 =
     (let s1 = unique_lock m_videoCodecSection s0;
          s = s1\<lparr>m_videoSourceDoViStreamInfo := v\<rparr> in
      unlock_result m_videoCodecSection
       (if m_dataCache s \<noteq> None
        then cache_call (m_dataCache s) (DC_SetVideoSourceDoViStreamInfo (m_videoSourceDoViStreamInfo s)) s
        else Inr s))"

definition SetVideoDoViCodecFourCC :: "string \<Rightarrow> world \<Rightarrow> error + world" where
  "SetVideoDoViCodecFourCC codecFourCC s0 =
     (let s1 = unique_lock m_videoCodecSection s0;
          s = s1\<lparr>m_videoDoViCodecFourCC := codecFourCC\<rparr> in
      unlock_result m_videoCodecSection
       (if m_dataCache s \<noteq> None
        then cache_call (m_dataCache s) (DC_SetVideoDoViCodecFourCC (m_videoDoViCodecFourCC s)) s
        else Inr s))"

definition SetVideoHDRStaticMetadataInfo :: "HDRStaticMetadataInfo \<Rightarrow> world \<Rightarrow> error + world" where
  "SetVideoHDRStaticMetadataInfo v s0 =
     (let s1 = unique_lock m_videoCodecSection s0;
          s = s1\<lparr>m_videoHDRStaticMetadataInfo := v\<rparr> in
      unlock_result m_videoCodecSection
       (if m_dataCache s \<noteq> None
        then cache_call (m_dataCache s) (DC_SetVideoHDRStaticMetadataInfo (m_videoHDRStaticMetadataInfo s)) s
        else Inr s))"

definition SetVideoVS10Mode :: "nat \<Rightarrow> world \<Rightarrow> error + world" where
  "SetVideoVS10Mode vs10Mode s0 =
     (let s1 = unique_lock m_videoCodecSection s0;
          s = s1\<lparr>m_videoVS10Mode := vs10Mode\<rparr> in
      unlock_result m_videoCodecSection
       (if m_dataCache s \<noteq> None
        then cache_call (m_dataCache s) (DC_SetVideoVS10Mode (m_videoVS10Mode s)) s
        else Inr s))"

definition SetVideoLiveBitRate :: "real \<Rightarrow> world \<Rightarrow> error + world" where
  "SetVideoLiveBitRate bitRate s0 =
     (let s1 = unique_lock m_videoCodecSection s0;
          s = s1\<lparr>m_videoLiveBitRate := bitRate\<rparr> in
      unlock_result m_videoCodecSection
       (if m_dataCache s \<noteq> None
        then cache_call (m_dataCache s) (DC_SetVideoLiveBitRate (m_videoLiveBitRate s)) s
        else Inr s))"

definition SetVideoQueueLevel :: "int \<Rightarrow> world \<Rightarrow> error + world" where
  "SetVideoQueueLevel level s0 =
     (let s1 = unique_lock m_videoCodecSection s0;
          s = s1\<lparr>m_videoQueueLevel := level\<rparr> in
      unlock_result m_videoCodecSection
       (if m_dataCache s \<noteq> None
        then cache_call (m_dataCache s) (DC_SetVideoQueueLevel (m_videoQueueLevel s)) s
        else Inr s))"

definition SetVideoQueueDataLevel :: "int \<Rightarrow> world \<Rightarrow> error + world" where
  "SetVideoQueueDataLevel level s0 =
     (let s1 = unique_lock m_videoCodecSection s0;
          s = s1\<lparr>m_videoQueueDataLevel := level\<rparr> in
      unlock_result m_videoCodecSection
       (if m_dataCache s \<noteq> None
        then cache_call (m_dataCache s) (DC_SetVideoQueueDataLevel (m_videoQueueDataLevel s)) s
        else Inr s))"

definition SetVideoFps :: "real \<Rightarrow> world \<Rightarrow> error + world" where
  "SetVideoFps fps s0 =
     (let s1 = unique_lock m_videoCodecSection s0;
          s = s1\<lparr>m_videoFPS := fps\<rparr> in
      unlock_result m_videoCodecSection
       (if m_dataCache s \<noteq> None
        then cache_call (m_dataCache s) (DC_SetVideoFps (m_videoFPS s)) s
        else Inr s))"

definition SetVideoDAR :: "real \<Rightarrow> world \<Rightarrow> error + world" where
  "SetVideoDAR dar s0 =
     (let s1 = unique_lock m_videoCodecSection s0;
          s = s1\<lparr>m_videoDAR := dar\<rparr> in
      unlock_result m_videoCodecSection
       (if m_dataCache s \<noteq> None
        then cache_call (m_dataCache s) (DC_SetVideoDAR (m_videoDAR s)) s
        else Inr s))"

definition SetVideoInterlaced :: "bool \<Rightarrow> world \<Rightarrow> error + world" where
  "SetVideoInterlaced interlaced s0 =
     (let s1 = unique_lock m_videoCodecSection s0;
          s = s1\<lparr>m_videoIsInterlaced := interlaced\<rparr> in
      unlock_result m_videoCodecSection
       (if m_dataCache s \<noteq> None
        then cache_call (m_dataCache s) (DC_SetVideoInterlaced interlaced) s
        else Inr s))"

definition SetDeinterlacingMethodDefault :: "EINTERLACEMETHOD \<Rightarrow> world \<Rightarrow> world" where
  "SetDeinterlacingMethodDefault method s0 =
     unlock m_videoCodecSection ((unique_lock m_videoCodecSection s0)\<lparr>m_deintMethodDefault := method\<rparr>)"

definition SetPixFormats :: "(AVPixelFormat list) \<Rightarrow> world \<Rightarrow> world" where
  "SetPixFormats formats s0 =
     unlock m_videoCodecSection ((unique_lock m_videoCodecSection s0)\<lparr>m_pixFormats := formats\<rparr>)"

definition SetAudioDecoderName :: "string \<Rightarrow> world \<Rightarrow> error + world" where
  "SetAudioDecoderName name s0 =
     (let s1 = unique_lock m_audioCodecSection s0;
          s = s1\<lparr>m_audioDecoderName := name\<rparr> in
      unlock_result m_audioCodecSection
       (if m_dataCache s \<noteq> None
        then cache_call (m_dataCache s) (DC_SetAudioDecoderName (m_audioDecoderName s)) s
        else Inr s))"

definition SetAudioChannels :: "string \<Rightarrow> world \<Rightarrow> error + world" where
  "SetAudioChannels channels s0 =
     (let s1 = unique_lock m_audioCodecSection s0;
          s = s1\<lparr>m_audioChannels := channels\<rparr> in
      unlock_result m_audioCodecSection
       (if m_dataCache s \<noteq> None
        then cache_call (m_dataCache s) (DC_SetAudioChannels (m_audioChannels s)) s
        else Inr s))"

definition SetAudioSampleRate :: "int \<Rightarrow> world \<Rightarrow> error + world" where
  "SetAudioSampleRate sampleRate s0 =
     (let s1 = unique_lock m_audioCodecSection s0;
          s = s1\<lparr>m_audioSampleRate := sampleRate\<rparr> in
      unlock_result m_audioCodecSection
       (if m_dataCache s \<noteq> None
        then cache_call (m_dataCache s) (DC_SetAudioSampleRate (m_audioSampleRate s)) s
        else Inr s))"

definition SetAudioBitsPerSample :: "int \<Rightarrow> world \<Rightarrow> error + world" where
  "SetAudioBitsPerSample bitsPerSample s0 =
     (let s1 = unique_lock m_audioCodecSection s0;
          s = s1\<lparr>m_audioBitsPerSample := bitsPerSample\<rparr> in
      unlock_result m_audioCodecSection
       (if m_dataCache s \<noteq> None
        then cache_call (m_dataCache s) (DC_SetAudioBitsPerSample (m_audioBitsPerSample s)) s
        else Inr s))"

definition SetAudioIsDolbyAtmos :: "bool \<Rightarrow> world \<Rightarrow> error + world" where
  "SetAudioIsDolbyAtmos isDolbyAtmos s0 =
     (let s1 = unique_lock m_audioCodecSection s0;
          s = s1\<lparr>m_audioIsDolbyAtmos := isDolbyAtmos\<rparr> in
      unlock_result m_audioCodecSection
       (if m_dataCache s \<noteq> None
        then cache_call (m_dataCache s) (DC_SetAudioIsDolbyAtmos (m_audioIsDolbyAtmos s)) s
        else Inr s))"

definition SetAudioDtsXType :: "DtsXType \<Rightarrow> world \<Rightarrow> error + world" where
  "SetAudioDtsXType dtsXType s0 =
     (let s1 = unique_lock m_audioCodecSection s0;
          s = s1\<lparr>m_audioDtsXType := dtsXType\<rparr> in
      unlock_result m_audioCodecSection
       (if m_dataCache s \<noteq> None
        then cache_call (m_dataCache s) (DC_SetAudioDtsXType (m_audioDtsXType s)) s
        else Inr s))"

definition SetAudioLiveBitRate :: "real \<Rightarrow> world \<Rightarrow> error + world" where
  "SetAudioLiveBitRate bitRate s0 =
     (let s1 = unique_lock m_audioCodecSection s0;
          s = s1\<lparr>m_audioLiveBitRate := bitRate\<rparr> in
      unlock_result m_audioCodecSection
       (if m_dataCache s \<noteq> None
        then cache_call (m_dataCache s) (DC_SetAudioLiveBitRate (m_audioLiveBitRate s)) s
        else Inr s))"

definition SetAudioQueueLevel :: "int \<Rightarrow> world \<Rightarrow> error + world" where
  "SetAudioQueueLevel level s0 =
     (let s1 = unique_lock m_audioCodecSection s0;
          s = s1\<lparr>m_audioQueueLevel := level\<rparr> in
      unlock_result m_audioCodecSection
       (if m_dataCache s \<noteq> None
        then cache_call (m_dataCache s) (DC_SetAudioQueueLevel (m_audioQueueLevel s)) s
        else Inr s))"

definition SetAudioQueueDataLevel :: "int \<Rightarrow> world \<Rightarrow> error + world" where
  "SetAudioQueueDataLevel level s0 =
     (let s1 = unique_lock m_audioCodecSection s0;
          s = s1\<lparr>m_audioQueueDataLevel := level\<rparr> in
      unlock_result m_audioCodecSection
       (if m_dataCache s \<noteq> None
        then cache_call (m_dataCache s) (DC_SetAudioQueueDataLevel (m_audioQueueDataLevel s)) s
        else Inr s))"

definition SetRenderClockSync :: "bool \<Rightarrow> world \<Rightarrow> error + world" where
  "SetRenderClockSync enabled s0 =
     (let s1 = unique_lock m_renderSection s0;
          s = s1\<lparr>m_isClockSync := enabled\<rparr> in
      unlock_result m_renderSection
       (if m_dataCache s \<noteq> None
        then cache_call (m_dataCache s) (DC_SetRenderClockSync enabled) s
        else Inr s))"

definition UpdateRenderBuffers :: "int \<Rightarrow> int \<Rightarrow> int \<Rightarrow> world \<Rightarrow> world" where
  "UpdateRenderBuffers queued discard free s0 =
     unlock m_renderSection ((unique_lock m_renderSection s0)\<lparr>m_renderBufQueued := queued, m_renderBufDiscard := discard, m_renderBufFree := free\<rparr>)"

definition SetStateSeeking :: "bool \<Rightarrow> world \<Rightarrow> error + world" where
  "SetStateSeeking active s0 =
     (let s1 = unique_lock m_renderSection s0;
          s = s1\<lparr>m_stateSeeking := active\<rparr> in
      unlock_result m_renderSection
       (if m_dataCache s \<noteq> None
        then cache_call (m_dataCache s) (DC_SetStateSeeking active) s
        else Inr s))"

definition SetStateRealtime :: "bool \<Rightarrow> world \<Rightarrow> world" where
  "SetStateRealtime state s0 =
     unlock m_renderSection ((unique_lock m_renderSection s0)\<lparr>m_realTimeStream := state\<rparr>)"

definition SetSpeed :: "real \<Rightarrow> world \<Rightarrow> error + world" where
  "SetSpeed speed s0 =
     (let s1 = unique_lock m_stateSection s0;
          s = s1\<lparr>m_speed := speed, m_newSpeed := speed\<rparr> in
      unlock_result m_stateSection
       (if m_dataCache s \<noteq> None
        then cache_call (m_dataCache s) (DC_SetSpeed (m_newTempo s) speed) s
        else Inr s))"

definition SetNewSpeed :: "real \<Rightarrow> world \<Rightarrow> error + world" where
  "SetNewSpeed speed s0 =
     (let s1 = unique_lock m_stateSection s0;
          s = s1\<lparr>m_newSpeed := speed\<rparr> in
      unlock_result m_stateSection
       (if m_dataCache s \<noteq> None
        then cache_call (m_dataCache s) (DC_SetSpeed (m_tempo s) speed) s
        else Inr s))"

definition SetFrameAdvance :: "bool \<Rightarrow> world \<Rightarrow> error + world" where
  "SetFrameAdvance fa s0 =
     (let s1 = unique_lock m_stateSection s0;
          s = s1\<lparr>m_frameAdvance := fa\<rparr> in
      unlock_result m_stateSection
       (if m_dataCache s \<noteq> None
        then cache_call (m_dataCache s) (DC_SetFrameAdvance fa) s
        else Inr s))"

definition SetTempo :: "real \<Rightarrow> world \<Rightarrow> error + world" where
  "SetTempo tempo s0 =
     (let s1 = unique_lock m_stateSection s0;
          s = s1\<lparr>m_tempo := tempo, m_newTempo := tempo\<rparr> in
      unlock_result m_stateSection
       (if m_dataCache s \<noteq> None
        then cache_call (m_dataCache s) (DC_SetSpeed tempo (m_newSpeed s)) s
        else Inr s))"

definition SetNewTempo :: "real \<Rightarrow> world \<Rightarrow> error + world" where
  "SetNewTempo tempo s0 =
     (let s1 = unique_lock m_stateSection s0;
          s = s1\<lparr>m_newTempo := tempo\<rparr> in
      unlock_result m_stateSection
       (if m_dataCache s \<noteq> None
        then cache_call (m_dataCache s) (DC_SetSpeed tempo (m_speed s)) s
        else Inr s))"

definition SetLevelVQ :: "int \<Rightarrow> world \<Rightarrow> world" where
  "SetLevelVQ level s0 = s0\<lparr>m_levelVQ := level\<rparr>"

definition SetGuiRender :: "bool \<Rightarrow> world \<Rightarrow> error + world" where
  "SetGuiRender gui s0 =
     (let s1 = unique_lock m_stateSection s0;
          change = (m_renderGuiLayer s1 \<noteq> gui);
          s = s1\<lparr>m_renderGuiLayer := gui\<rparr> in
      unlock_result m_stateSection
       (if change
        then (if m_dataCache s \<noteq> None
              then cache_call (m_dataCache s) (DC_SetGuiRender gui) s
              else Inr s)
        else Inr s))"

definition SetVideoRender :: "bool \<Rightarrow> world \<Rightarrow> error + world" where
  "SetVideoRender video s0 =
     (let s1 = unique_lock m_stateSection s0;
          change = (m_renderVideoLayer s1 \<noteq> video);
          s = s1\<lparr>m_renderVideoLayer := video\<rparr> in
      unlock_result m_stateSection
       (if change
        then (if m_dataCache s \<noteq> None
              then cache_call (m_dataCache s) (DC_SetVideoRender video) s
              else Inr s)
        else Inr s))"

definition SetPlayTimes :: "int \<Rightarrow> int \<Rightarrow> int \<Rightarrow> int \<Rightarrow> world \<Rightarrow> error + world" where
  "SetPlayTimes start current min_t max_t s0 =
     (let s1 = unique_lock m_stateSection s0;
          s = s1\<lparr>m_startTime := start, m_time := current, m_timeMin := min_t, m_timeMax := max_t\<rparr> in
      unlock_result m_stateSection
       (if m_dataCache s \<noteq> None
        then cache_call (m_dataCache s) (DC_SetPlayTimes start current min_t max_t) s
        else Inr s))"

definition SetVideoSettings :: "CVideoSettings \<Rightarrow> world \<Rightarrow> world" where
  "SetVideoSettings settings s0 =
     unlock m_settingsSection ((unique_lock m_settingsSection s0)\<lparr>m_videoSettings := settings\<rparr>)"

subsection \<open>Getters\<close>

text \<open>
  The getters are \<open>const\<close>: each takes a section, copies a member and releases the section.
  They are functions of the state and leave nothing in the trace.
\<close>

definition GetVideoPts :: "world \<Rightarrow> real" where
  "GetVideoPts s = m_videoPts s"

definition GetVideoDecoderName :: "world \<Rightarrow> string" where
  "GetVideoDecoderName s = m_videoDecoderName s"

definition IsVideoHwDecoder :: "world \<Rightarrow> bool" where
  "IsVideoHwDecoder s = m_videoIsHWDecoder s"

definition GetVideoDeintMethod :: "world \<Rightarrow> string" where
  "GetVideoDeintMethod s = m_videoDeintMethod s"

definition GetVideoPixelFormat :: "world \<Rightarrow> string" where
  "GetVideoPixelFormat s = m_videoPixelFormat s"

definition GetVideoStereoMode :: "world \<Rightarrow> string" where
  "GetVideoStereoMode s = m_videoStereoMode s"

definition GetVideoDimensions :: "world \<Rightarrow> int \<times> int" where
  "GetVideoDimensions s = (m_videoWidth s, m_videoHeight s)"

definition GetVideoBitDepth :: "world \<Rightarrow> int" where
  "GetVideoBitDepth s = m_videoBitDepth s"

definition GetVideoHdrType :: "world \<Rightarrow> StreamHdrType" where
  "GetVideoHdrType s = m_videoHdrType s"

definition GetVideoSourceHdrType :: "world \<Rightarrow> StreamHdrType" where
  "GetVideoSourceHdrType s = m_videoSourceHdrType s"

definition GetVideoSourceAdditionalHdrType :: "world \<Rightarrow> StreamHdrType" where
  "GetVideoSourceAdditionalHdrType s = m_videoSourceAdditionalHdrType s"

definition GetVideoColorSpace :: "world \<Rightarrow> AVColorSpace" where
  "GetVideoColorSpace s = m_videoColorSpace s"

definition GetVideoColorRange :: "world \<Rightarrow> AVColorRange" where
  "GetVideoColorRange s = m_videoColorRange s"

definition GetVideoColorPrimaries :: "world \<Rightarrow> AVColorPrimaries" where
  "GetVideoColorPrimaries s = m_videoColorPrimaries s"

definition GetVideoColorTransferCharacteristic :: "world \<Rightarrow> AVColorTransferCharacteristic" where
  "GetVideoColorTransferCharacteristic s = m_videoColorTransferCharacteristic s"

definition GetVideoDoViFrameMetadata :: "world \<Rightarrow> DOVIFrameMetadata" where
  "GetVideoDoViFrameMetadata s = m_videoDoViFrameMetadata s"

definition GetVideoDoViStreamMetadata :: "world \<Rightarrow> DOVIStreamMetadata" where
  "GetVideoDoViStreamMetadata s = m_videoDoViStreamMetadata s"

definition GetVideoDoViStreamInfo :: "world \<Rightarrow> DOVIStreamInfo" where
  "GetVideoDoViStreamInfo s = m_videoDoViStreamInfo s"

definition GetVideoSourceDoViStreamInfo :: "world \<Rightarrow> DOVIStreamInfo" where
  "GetVideoSourceDoViStreamInfo s = m_videoSourceDoViStreamInfo s"

definition GetVideoDoViCodecFourCC :: "world \<Rightarrow> string" where
  "GetVideoDoViCodecFourCC s = m_videoDoViCodecFourCC s"

definition GetVideoHDRStaticMetadataInfo :: "world \<Rightarrow> HDRStaticMetadataInfo" where
  "GetVideoHDRStaticMetadataInfo s = m_videoHDRStaticMetadataInfo s"

definition GetVideoVS10Mode :: "world \<Rightarrow> nat" where
  "GetVideoVS10Mode s = m_videoVS10Mode s"

definition GetVideoLiveBitRate :: "world \<Rightarrow> real" where
  "GetVideoLiveBitRate s = m_videoLiveBitRate s"

definition GetVideoQueueLevel :: "world \<Rightarrow> int" where
  "GetVideoQueueLevel s = m_videoQueueLevel s"

definition GetVideoQueueDataLevel :: "world \<Rightarrow> int" where
  "GetVideoQueueDataLevel s = m_videoQueueDataLevel s"

definition GetVideoFps :: "world \<Rightarrow> real" where
  "GetVideoFps s = m_videoFPS s"

definition GetVideoDAR :: "world \<Rightarrow> real" where
  "GetVideoDAR s = m_videoDAR s"

definition GetVideoInterlaced :: "world \<Rightarrow> bool" where
  "GetVideoInterlaced s = m_videoIsInterlaced s"

definition GetDeinterlacingMethodDefault :: "world \<Rightarrow> EINTERLACEMETHOD" where
  "GetDeinterlacingMethodDefault s = m_deintMethodDefault s"

definition GetAudioDecoderName :: "world \<Rightarrow> string" where
  "GetAudioDecoderName s = m_audioDecoderName s"

definition GetAudioChannels :: "world \<Rightarrow> string" where
  "GetAudioChannels s = m_audioChannels s"

definition GetAudioSampleRate :: "world \<Rightarrow> int" where
  "GetAudioSampleRate s = m_audioSampleRate s"

definition GetAudioBitsPerSample :: "world \<Rightarrow> int" where
  "GetAudioBitsPerSample s = m_audioBitsPerSample s"

definition GetAudioIsDolbyAtmos :: "world \<Rightarrow> bool" where
  "GetAudioIsDolbyAtmos s = m_audioIsDolbyAtmos s"

definition GetAudioDtsXType :: "world \<Rightarrow> DtsXType" where
  "GetAudioDtsXType s = m_audioDtsXType s"

definition GetAudioLiveBitRate :: "world \<Rightarrow> real" where
  "GetAudioLiveBitRate s = m_audioLiveBitRate s"

definition GetAudioQueueLevel :: "world \<Rightarrow> int" where
  "GetAudioQueueLevel s = m_audioQueueLevel s"

definition GetAudioQueueDataLevel :: "world \<Rightarrow> int" where
  "GetAudioQueueDataLevel s = m_audioQueueDataLevel s"

definition IsRenderClockSync :: "world \<Rightarrow> bool" where
  "IsRenderClockSync s = m_isClockSync s"

definition GetRenderBuffers :: "world \<Rightarrow> int \<times> int \<times> int" where
  "GetRenderBuffers s = (m_renderBufQueued s, m_renderBufDiscard s, m_renderBufFree s)"

definition IsSeeking :: "world \<Rightarrow> bool" where
  "IsSeeking s = m_stateSeeking s"

definition IsRealtimeStream :: "world \<Rightarrow> bool" where
  "IsRealtimeStream s = m_realTimeStream s"

definition GetNewSpeed :: "world \<Rightarrow> real" where
  "GetNewSpeed s = m_newSpeed s"

definition IsFrameAdvance :: "world \<Rightarrow> bool" where
  "IsFrameAdvance s = m_frameAdvance s"

definition GetNewTempo :: "world \<Rightarrow> real" where
  "GetNewTempo s = m_newTempo s"

definition GetLevelVQ :: "world \<Rightarrow> int" where
  "GetLevelVQ s = m_levelVQ s"

definition GetGuiRender :: "world \<Rightarrow> bool" where
  "GetGuiRender s = m_renderGuiLayer s"

definition GetVideoRender :: "world \<Rightarrow> bool" where
  "GetVideoRender s = m_renderVideoLayer s"

definition GetMaxTime :: "world \<Rightarrow> int" where
  "GetMaxTime s = m_timeMax s"

definition GetVideoSettings :: "world \<Rightarrow> CVideoSettings" where
  "GetVideoSettings s = m_videoSettings s"

text \<open>\<open>GetRenderFormats\<close> and \<open>GetPixFormats\<close>, with its fallback when nothing is stored.\<close>

definition GetRenderFormats :: "AVPixelFormat list" where
  "GetRenderFormats = [] @ [AV_PIX_FMT_YUV420P]"

definition GetPixFormats :: "world \<Rightarrow> AVPixelFormat list" where
  "GetPixFormats s = (if m_pixFormats s = [] then GetRenderFormats else m_pixFormats s)"

definition GetFallbackDeintMethod :: EINTERLACEMETHOD where
  "GetFallbackDeintMethod = VS_INTERLACEMETHOD_DEINTERLACE"

subsection \<open>Codec resets and cache binding\<close>

text \<open>
  \<open>DOLBY_VISION_OUTPUT_MODE_BYPASS\<close> is a constant of a vendor header that is not among
  the sources; \<open>ResetVideoCodecInfo\<close> and its caller take it as a parameter.
\<close>

definition ResetVideoCodecInfo :: "nat \<Rightarrow> world \<Rightarrow> error + world" where
  "ResetVideoCodecInfo DOLBY_VISION_OUTPUT_MODE_BYPASS s0 =
     (let s1 = unique_lock m_videoCodecSection s0;
          s = s1\<lparr>
        m_videoPts := 0,
        m_videoIsHWDecoder := False,
        m_videoDecoderName := ''unknown'',
        m_videoDeintMethod := ''unknown'',
        m_videoPixelFormat := ''unknown'',
        m_videoStereoMode := [],
        m_videoWidth := 0,
        m_videoHeight := 0,
        m_videoFPS := 0,
        m_videoDAR := 0,
        m_videoBitDepth := 0,
        m_videoHdrType := HDR_TYPE_NONE,
        m_videoSourceHdrType := HDR_TYPE_NONE,
        m_videoSourceAdditionalHdrType := HDR_TYPE_NONE,
        m_videoColorSpace := AVCOL_SPC_UNSPECIFIED,
        m_videoColorRange := AVCOL_RANGE_UNSPECIFIED,
        m_videoColorPrimaries := AVCOL_PRI_UNSPECIFIED,
        m_videoColorTransferCharacteristic := AVCOL_TRC_UNSPECIFIED,
        m_videoDoViFrameMetadata := DOVIFrameMetadata_init,
        m_videoDoViStreamInfo := DOVIStreamInfo_init,
        m_videoSourceDoViStreamInfo := DOVIStreamInfo_init,
        m_videoDoViCodecFourCC := [],
        m_videoHDRStaticMetadataInfo := HDRStaticMetadataInfo_init,
        m_videoVS10Mode := DOLBY_VISION_OUTPUT_MODE_BYPASS,
        m_videoLiveBitRate := 0,
        m_videoQueueLevel := 0,
        m_videoQueueDataLevel := 0,
        m_videoIsInterlaced := False,
        m_deintMethods := [] @ [VS_INTERLACEMETHOD_NONE],
        m_deintMethodDefault := VS_INTERLACEMETHOD_NONE,
        m_stateSeeking := False\<rparr> in
      unlock_result m_videoCodecSection
      (if m_dataCache s \<noteq> None
      then cache_calls (m_dataCache s)
        [DC_SetVideoPts (m_videoPts s),
         DC_SetVideoDecoderName (m_videoDecoderName s) (m_videoIsHWDecoder s),
         DC_SetVideoDeintMethod (m_videoDeintMethod s),
         DC_SetVideoPixelFormat (m_videoPixelFormat s),
         DC_SetVideoDimensions (m_videoWidth s) (m_videoHeight s),
         DC_SetVideoFps (m_videoFPS s),
         DC_SetVideoDAR (m_videoDAR s),
         DC_SetStateSeeking (m_stateSeeking s),
         DC_SetVideoStereoMode (m_videoStereoMode s),
         DC_SetVideoBitDepth (m_videoBitDepth s),
         DC_SetVideoHdrType (m_videoHdrType s),
         DC_SetVideoSourceHdrType (m_videoSourceHdrType s),
         DC_SetVideoSourceAdditionalHdrType (m_videoSourceAdditionalHdrType s),
         DC_SetVideoColorSpace (m_videoColorSpace s),
         DC_SetVideoColorRange (m_videoColorRange s),
         DC_SetVideoColorPrimaries (m_videoColorPrimaries s),
         DC_SetVideoColorTransferCharacteristic (m_videoColorTransferCharacteristic s),
         DC_SetVideoDoViFrameMetadata (m_videoDoViFrameMetadata s),
         DC_SetVideoDoViStreamInfo (m_videoDoViStreamInfo s),
         DC_SetVideoSourceDoViStreamInfo (m_videoSourceDoViStreamInfo s),
         DC_SetVideoDoViCodecFourCC (m_videoDoViCodecFourCC s),
         DC_SetVideoHDRStaticMetadataInfo (m_videoHDRStaticMetadataInfo s),
         DC_SetVideoVS10Mode (m_videoVS10Mode s),
         DC_SetVideoLiveBitRate (m_videoLiveBitRate s),
         DC_SetVideoQueueLevel (m_videoQueueLevel s),
         DC_SetVideoQueueDataLevel (m_videoQueueDataLevel s)] s
      else Inr s))"

definition ResetAudioCodecInfo :: "world \<Rightarrow> error + world" where
  "ResetAudioCodecInfo s0 =
     (let s1 = unique_lock m_audioCodecSection s0;
          s = s1\<lparr>
        m_audioDecoderName := ''unknown'',
        m_audioChannels := ''unknown'',
        m_audioSampleRate := 0,
        m_audioBitsPerSample := 0,
        m_audioIsDolbyAtmos := False,
        m_audioDtsXType := DTS_X_NONE,
        m_audioLiveBitRate := 0,
        m_audioQueueLevel := 0,
        m_audioQueueDataLevel := 0\<rparr> in
      unlock_result m_audioCodecSection
      (if m_dataCache s \<noteq> None
      then cache_calls (m_dataCache s)
        [DC_SetAudioDecoderName (m_audioDecoderName s),
         DC_SetAudioChannels (m_audioChannels s),
         DC_SetAudioSampleRate (m_audioSampleRate s),
         DC_SetAudioBitsPerSample (m_audioBitsPerSample s),
         DC_SetAudioIsDolbyAtmos (m_audioIsDolbyAtmos s),
         DC_SetAudioDtsXType (m_audioDtsXType s),
         DC_SetAudioLiveBitRate (m_audioLiveBitRate s),
         DC_SetAudioQueueLevel (m_audioQueueLevel s),
         DC_SetAudioQueueDataLevel (m_audioQueueLevel s)] s
      else Inr s))"

text \<open>
  \<open>SetDataCache\<close> stores the pointer, resets the video group, clears the two render
  flags and then calls the cache through the pointer with no test of it. It takes no
  section of its own.
\<close>

definition SetDataCache :: "nat \<Rightarrow> cache_ptr option \<Rightarrow> world \<Rightarrow> error + world" where
  "SetDataCache DOLBY_VISION_OUTPUT_MODE_BYPASS cache s0 =
     and_then (ResetVideoCodecInfo DOLBY_VISION_OUTPUT_MODE_BYPASS (s0\<lparr>m_dataCache := cache\<rparr>))
       (\<lambda>s1. let s = s1\<lparr>m_renderGuiLayer := False, m_renderVideoLayer := False\<rparr> in
          and_then (cache_call (m_dataCache s) (DC_SetGuiRender (m_renderGuiLayer s)) s)
            (\<lambda>s'. cache_call (m_dataCache s') (DC_SetVideoRender (m_renderVideoLayer s')) s'))"

definition SeekFinished :: "int \<Rightarrow> world \<Rightarrow> error + world" where
  "SeekFinished offset s0 =
     (let s = unique_lock m_stateSection s0 in
      unlock_result m_stateSection
       (if m_dataCache s \<noteq> None
        then cache_call (m_dataCache s) (DC_SeekFinished offset) s
        else Inr s))"

subsection \<open>Deinterlacing methods\<close>

text \<open>
  \<open>Supports\<close> is \<open>std::find\<close> over the list of supported methods. It is \<open>const\<close>:
  \<open>Supports\<close> is its result as a function of the state, and \<open>Supports_call\<close> is the call
  as another method makes it, the result together with the section taken and released
  around the search.
\<close>

definition Supports :: "EINTERLACEMETHOD \<Rightarrow> world \<Rightarrow> bool" where
  "Supports method s = (if find (\<lambda>m. m = method) (m_deintMethods s) \<noteq> None then True else False)"

definition Supports_call :: "EINTERLACEMETHOD \<Rightarrow> world \<Rightarrow> bool \<times> world" where
  "Supports_call method s0 =
     (let s = unique_lock m_videoCodecSection s0 in
      (Supports method s, unlock m_videoCodecSection s))"

text \<open>
  The loop shared by \<open>UpdateDeinterlacingMethods\<close> and \<open>UpdateRenderInfo\<close>: every method
  the renderer reports is appended unless the list already has it.
\<close>

fun append_render_deintMethods :: "EINTERLACEMETHOD list \<Rightarrow> world \<Rightarrow> world" where
  "append_render_deintMethods [] s = s"
| "append_render_deintMethods (deint # rest) s0 =
     (let (supported, s) = Supports_call deint s0 in
      append_render_deintMethods rest
        (if \<not> supported then s\<lparr>m_deintMethods := m_deintMethods s @ [deint]\<rparr> else s))"

definition UpdateDeinterlacingMethods :: "EINTERLACEMETHOD list \<Rightarrow> world \<Rightarrow> world" where
  "UpdateDeinterlacingMethods methods s0 =
     (let s1 = (unique_lock m_videoCodecSection s0)\<lparr>m_deintMethods := methods\<rparr>;
          s2 = append_render_deintMethods (renderInfo_deintMethods (m_renderInfo s1)) s1;
          (supported, s3) = Supports_call VS_INTERLACEMETHOD_NONE s2 in
      unlock m_videoCodecSection
       (if \<not> supported
        then s3\<lparr>m_deintMethods := VS_INTERLACEMETHOD_NONE # m_deintMethods s3\<rparr>
        else s3))"

definition SetSwDeinterlacingMethods :: "world \<Rightarrow> world" where
  "SetSwDeinterlacingMethods s =
     (let methods = (([] @ [VS_INTERLACEMETHOD_NONE]) @ [VS_INTERLACEMETHOD_DEINTERLACE])
                      @ [VS_INTERLACEMETHOD_DEINTERLACE_HALF] in
      SetDeinterlacingMethodDefault VS_INTERLACEMETHOD_DEINTERLACE
        (UpdateDeinterlacingMethods methods s))"

definition UpdateRenderInfo :: "CRenderInfo \<Rightarrow> world \<Rightarrow> world" where
  "UpdateRenderInfo info s0 =
     (let s = (unique_lock m_renderSection s0)\<lparr>m_renderInfo := info\<rparr> in
      unlock m_renderSection
       (append_render_deintMethods (renderInfo_deintMethods (m_renderInfo s)) s))"

subsection \<open>Tempo limits\<close>

text \<open>
  \<open>IsTempoAllowed\<close> reads \<open>m_maxTempo\<close> from the advanced settings of the application;
  the value is a parameter here. \<open>MinTempoPlatform\<close> returns \<open>0.75f\<close>, which is exactly
  3/4; \<open>MaxTempoPlatform\<close> returns \<open>1.55f\<close>, the single-precision number nearest to 1.55,
  which is 13002342 / 2^23 = 6501171/4194304 = 1.5499999523162842. A NaN argument, which
  the reals do not have, fails every comparison in the source and is refused there.
\<close>

definition MinTempoPlatform :: real where
  "MinTempoPlatform = 0.75"

definition MaxTempoPlatform :: real where
  "MaxTempoPlatform = 6501171 / 4194304"

definition IsTempoAllowed :: "real \<Rightarrow> real \<Rightarrow> bool" where
  "IsTempoAllowed m_maxTempo tempo =
     (if tempo > MinTempoPlatform \<and> (tempo < MaxTempoPlatform \<or> tempo < m_maxTempo)
      then True else False)"

subsection \<open>The registry of process-control factories\<close>

text \<open>
  \<open>m_processControls\<close> is a \<open>std::map\<close> from id to factory: a list of entries with
  distinct keys in ascending key order, which is the order a range-for visits them in.
  A factory is a function pointer; calling it gives a new object or null. So that one
  can tell which factories a call of \<open>CreateInstance\<close> invoked, the model returns their
  ids, in order, next to the result.
\<close>

type_synonym 'p CreateProcessControl = "unit \<Rightarrow> 'p option"

type_synonym 'p processControls = "(string \<times> 'p CreateProcessControl) list"

definition map_clear :: "('k \<times> 'v) list \<Rightarrow> ('k \<times> 'v) list" where
  "map_clear m = []"

text \<open>\<open>m[k] = v\<close>: overwrite the entry of \<open>k\<close>, or insert one at its place in the order.\<close>

fun map_assign :: "'k::linorder \<Rightarrow> 'v \<Rightarrow> ('k \<times> 'v) list \<Rightarrow> ('k \<times> 'v) list" where
  "map_assign k v [] = [(k, v)]"
| "map_assign k v ((k', v') # rest) =
     (if k = k' then (k, v) # rest
      else if k < k' then (k, v) # (k', v') # rest
      else (k', v') # map_assign k v rest)"

definition RegisterProcessControl ::
  "string \<Rightarrow> 'p CreateProcessControl \<Rightarrow> 'p processControls \<Rightarrow> 'p processControls" where
  "RegisterProcessControl ident createFunc m_processControls =
     map_assign ident createFunc (map_clear m_processControls)"

text \<open>
  The loop of \<open>CreateInstance\<close>: the first factory that returns an object ends it. The
  second component lists the ids of the factories called so far.
\<close>

fun CreateInstance_loop :: "'p processControls \<Rightarrow> string list \<Rightarrow> 'p option \<times> string list" where
  "CreateInstance_loop [] called = (None, called)"
| "CreateInstance_loop (info # rest) called =
     (case snd info () of
        Some ret \<Rightarrow> (Some ret, called @ [fst info])
      | None \<Rightarrow> CreateInstance_loop rest (called @ [fst info]))"

text \<open>\<open>new_CProcessInfo\<close> stands for the object that \<open>new CProcessInfo()\<close> builds.\<close>

definition CreateInstance :: "'p \<Rightarrow> 'p processControls \<Rightarrow> 'p \<times> string list" where
  "CreateInstance new_CProcessInfo m_processControls =
     (case CreateInstance_loop m_processControls [] of
        (Some ret, called) \<Rightarrow> (ret, called)
      | (None, called) \<Rightarrow> (new_CProcessInfo, called))"

section \<open>Specification-side definitions\<close>

subsection \<open>All setters at once\<close>

text \<open>
  One constructor per setter, with the arguments of the call, so that a statement can
  range over every setter. \<open>run_setter\<close> dispatches to the methods above.
\<close>

datatype setter_call =
    Call_SetVideoPts real
  | Call_SetVideoDecoderName string bool
  | Call_SetVideoDeintMethod string
  | Call_SetVideoPixelFormat string
  | Call_SetVideoStereoMode string
  | Call_SetVideoDimensions int int
  | Call_SetVideoBitDepth int
  | Call_SetVideoHdrType StreamHdrType
  | Call_SetVideoSourceHdrType StreamHdrType
  | Call_SetVideoSourceAdditionalHdrType StreamHdrType
  | Call_SetVideoColorSpace AVColorSpace
  | Call_SetVideoColorRange AVColorRange
  | Call_SetVideoColorPrimaries AVColorPrimaries
  | Call_SetVideoColorTransferCharacteristic AVColorTransferCharacteristic
  | Call_SetVideoDoViFrameMetadata DOVIFrameMetadata
  | Call_SetVideoDoViStreamMetadata DOVIStreamMetadata
  | Call_SetVideoDoViStreamInfo DOVIStreamInfo
  | Call_SetVideoSourceDoViStreamInfo DOVIStreamInfo
  | Call_SetVideoDoViCodecFourCC string
  | Call_SetVideoHDRStaticMetadataInfo HDRStaticMetadataInfo
  | Call_SetVideoVS10Mode nat
  | Call_SetVideoLiveBitRate real
  | Call_SetVideoQueueLevel int
  | Call_SetVideoQueueDataLevel int
  | Call_SetVideoFps real
  | Call_SetVideoDAR real
  | Call_SetVideoInterlaced bool
  | Call_SetDeinterlacingMethodDefault EINTERLACEMETHOD
  | Call_SetPixFormats "AVPixelFormat list"
  | Call_SetAudioDecoderName string
  | Call_SetAudioChannels string
  | Call_SetAudioSampleRate int
  | Call_SetAudioBitsPerSample int
  | Call_SetAudioIsDolbyAtmos bool
  | Call_SetAudioDtsXType DtsXType
  | Call_SetAudioLiveBitRate real
  | Call_SetAudioQueueLevel int
  | Call_SetAudioQueueDataLevel int
  | Call_SetRenderClockSync bool
  | Call_UpdateRenderBuffers int int int
  | Call_SetStateSeeking bool
  | Call_SetStateRealtime bool
  | Call_SetSpeed real
  | Call_SetNewSpeed real
  | Call_SetFrameAdvance bool
  | Call_SetTempo real
  | Call_SetNewTempo real
  | Call_SetLevelVQ int
  | Call_SetGuiRender bool
  | Call_SetVideoRender bool
  | Call_SetPlayTimes int int int int
  | Call_SetVideoSettings CVideoSettings

fun run_setter :: "setter_call \<Rightarrow> world \<Rightarrow> error + world" where
  "run_setter (Call_SetVideoPts pts) s = SetVideoPts pts s"
| "run_setter (Call_SetVideoDecoderName name isHw) s = SetVideoDecoderName name isHw s"
| "run_setter (Call_SetVideoDeintMethod method) s = SetVideoDeintMethod method s"
| "run_setter (Call_SetVideoPixelFormat pixFormat) s = SetVideoPixelFormat pixFormat s"
| "run_setter (Call_SetVideoStereoMode mode) s = SetVideoStereoMode mode s"
| "run_setter (Call_SetVideoDimensions width height) s = SetVideoDimensions width height s"
| "run_setter (Call_SetVideoBitDepth bitDepth) s = SetVideoBitDepth bitDepth s"
| "run_setter (Call_SetVideoHdrType hdrType) s = SetVideoHdrType hdrType s"
| "run_setter (Call_SetVideoSourceHdrType hdrType) s = SetVideoSourceHdrType hdrType s"
| "run_setter (Call_SetVideoSourceAdditionalHdrType hdrType) s = SetVideoSourceAdditionalHdrType hdrType s"
| "run_setter (Call_SetVideoColorSpace colorSpace) s = SetVideoColorSpace colorSpace s"
| "run_setter (Call_SetVideoColorRange colorRange) s = SetVideoColorRange colorRange s"
| "run_setter (Call_SetVideoColorPrimaries colorPrimaries) s = SetVideoColorPrimaries colorPrimaries s"
| "run_setter (Call_SetVideoColorTransferCharacteristic colorTransferCharacteristic) s = SetVideoColorTransferCharacteristic colorTransferCharacteristic s"
| "run_setter (Call_SetVideoDoViFrameMetadata v) s = SetVideoDoViFrameMetadata v s"
| "run_setter (Call_SetVideoDoViStreamMetadata v) s = SetVideoDoViStreamMetadata v s"
| "run_setter (Call_SetVideoDoViStreamInfo v) s = SetVideoDoViStreamInfo v s"
| "run_setter (Call_SetVideoSourceDoViStreamInfo v) s = SetVideoSourceDoViStreamInfo v s"
| "run_setter (Call_SetVideoDoViCodecFourCC codecFourCC) s = SetVideoDoViCodecFourCC codecFourCC s"
| "run_setter (Call_SetVideoHDRStaticMetadataInfo v) s = SetVideoHDRStaticMetadataInfo v s"
| "run_setter (Call_SetVideoVS10Mode vs10Mode) s = SetVideoVS10Mode vs10Mode s"
| "run_setter (Call_SetVideoLiveBitRate bitRate) s = SetVideoLiveBitRate bitRate s"
| "run_setter (Call_SetVideoQueueLevel level) s = SetVideoQueueLevel level s"
| "run_setter (Call_SetVideoQueueDataLevel level) s = SetVideoQueueDataLevel level s"
| "run_setter (Call_SetVideoFps fps) s = SetVideoFps fps s"
| "run_setter (Call_SetVideoDAR dar) s = SetVideoDAR dar s"
| "run_setter (Call_SetVideoInterlaced interlaced) s = SetVideoInterlaced interlaced s"
| "run_setter (Call_SetDeinterlacingMethodDefault method) s = Inr (SetDeinterlacingMethodDefault method s)"
| "run_setter (Call_SetPixFormats formats) s = Inr (SetPixFormats formats s)"
| "run_setter (Call_SetAudioDecoderName name) s = SetAudioDecoderName name s"
| "run_setter (Call_SetAudioChannels channels) s = SetAudioChannels channels s"
| "run_setter (Call_SetAudioSampleRate sampleRate) s = SetAudioSampleRate sampleRate s"
| "run_setter (Call_SetAudioBitsPerSample bitsPerSample) s = SetAudioBitsPerSample bitsPerSample s"
| "run_setter (Call_SetAudioIsDolbyAtmos isDolbyAtmos) s = SetAudioIsDolbyAtmos isDolbyAtmos s"
| "run_setter (Call_SetAudioDtsXType dtsXType) s = SetAudioDtsXType dtsXType s"
| "run_setter (Call_SetAudioLiveBitRate bitRate) s = SetAudioLiveBitRate bitRate s"
| "run_setter (Call_SetAudioQueueLevel level) s = SetAudioQueueLevel level s"
| "run_setter (Call_SetAudioQueueDataLevel level) s = SetAudioQueueDataLevel level s"
| "run_setter (Call_SetRenderClockSync enabled) s = SetRenderClockSync enabled s"
| "run_setter (Call_UpdateRenderBuffers queued discard free) s = Inr (UpdateRenderBuffers queued discard free s)"
| "run_setter (Call_SetStateSeeking active) s = SetStateSeeking active s"
| "run_setter (Call_SetStateRealtime state) s = Inr (SetStateRealtime state s)"
| "run_setter (Call_SetSpeed speed) s = SetSpeed speed s"
| "run_setter (Call_SetNewSpeed speed) s = SetNewSpeed speed s"
| "run_setter (Call_SetFrameAdvance fa) s = SetFrameAdvance fa s"
| "run_setter (Call_SetTempo tempo) s = SetTempo tempo s"
| "run_setter (Call_SetNewTempo tempo) s = SetNewTempo tempo s"
| "run_setter (Call_SetLevelVQ level) s = Inr (SetLevelVQ level s)"
| "run_setter (Call_SetGuiRender gui) s = SetGuiRender gui s"
| "run_setter (Call_SetVideoRender video) s = SetVideoRender video s"
| "run_setter (Call_SetPlayTimes start current min_t max_t) s = SetPlayTimes start current min_t max_t s"
| "run_setter (Call_SetVideoSettings settings) s = Inr (SetVideoSettings settings s)"




text \<open>What the getter paired with a setter returns, compared with the arguments.\<close>

fun reads_back :: "setter_call \<Rightarrow> world \<Rightarrow> bool" where
  "reads_back (Call_SetVideoPts pts) s = (GetVideoPts s = pts)"
| "reads_back (Call_SetVideoDecoderName name isHw) s = (GetVideoDecoderName s = name \<and> IsVideoHwDecoder s = isHw)"
| "reads_back (Call_SetVideoDeintMethod method) s = (GetVideoDeintMethod s = method)"
| "reads_back (Call_SetVideoPixelFormat pixFormat) s = (GetVideoPixelFormat s = pixFormat)"
| "reads_back (Call_SetVideoStereoMode mode) s = (GetVideoStereoMode s = mode)"
| "reads_back (Call_SetVideoDimensions width height) s = (GetVideoDimensions s = (width, height))"
| "reads_back (Call_SetVideoBitDepth bitDepth) s = (GetVideoBitDepth s = bitDepth)"
| "reads_back (Call_SetVideoHdrType hdrType) s = (GetVideoHdrType s = hdrType)"
| "reads_back (Call_SetVideoSourceHdrType hdrType) s = (GetVideoSourceHdrType s = hdrType)"
| "reads_back (Call_SetVideoSourceAdditionalHdrType hdrType) s = (GetVideoSourceAdditionalHdrType s = hdrType)"
| "reads_back (Call_SetVideoColorSpace colorSpace) s = (GetVideoColorSpace s = colorSpace)"
| "reads_back (Call_SetVideoColorRange colorRange) s = (GetVideoColorRange s = colorRange)"
| "reads_back (Call_SetVideoColorPrimaries colorPrimaries) s = (GetVideoColorPrimaries s = colorPrimaries)"
| "reads_back (Call_SetVideoColorTransferCharacteristic colorTransferCharacteristic) s = (GetVideoColorTransferCharacteristic s = colorTransferCharacteristic)"
| "reads_back (Call_SetVideoDoViFrameMetadata v) s = (GetVideoDoViFrameMetadata s = v)"
| "reads_back (Call_SetVideoDoViStreamMetadata v) s = (GetVideoDoViStreamMetadata s = v)"
| "reads_back (Call_SetVideoDoViStreamInfo v) s = (GetVideoDoViStreamInfo s = v)"
| "reads_back (Call_SetVideoSourceDoViStreamInfo v) s = (GetVideoSourceDoViStreamInfo s = v)"
| "reads_back (Call_SetVideoDoViCodecFourCC codecFourCC) s = (GetVideoDoViCodecFourCC s = codecFourCC)"
| "reads_back (Call_SetVideoHDRStaticMetadataInfo v) s = (GetVideoHDRStaticMetadataInfo s = v)"
| "reads_back (Call_SetVideoVS10Mode vs10Mode) s = (GetVideoVS10Mode s = vs10Mode)"
| "reads_back (Call_SetVideoLiveBitRate bitRate) s = (GetVideoLiveBitRate s = bitRate)"
| "reads_back (Call_SetVideoQueueLevel level) s = (GetVideoQueueLevel s = level)"
| "reads_back (Call_SetVideoQueueDataLevel level) s = (GetVideoQueueDataLevel s = level)"
| "reads_back (Call_SetVideoFps fps) s = (GetVideoFps s = fps)"
| "reads_back (Call_SetVideoDAR dar) s = (GetVideoDAR s = dar)"
| "reads_back (Call_SetVideoInterlaced interlaced) s = (GetVideoInterlaced s = interlaced)"
| "reads_back (Call_SetDeinterlacingMethodDefault method) s = (GetDeinterlacingMethodDefault s = method)"
| "reads_back (Call_SetPixFormats formats) s = (GetPixFormats s = formats)"
| "reads_back (Call_SetAudioDecoderName name) s = (GetAudioDecoderName s = name)"
| "reads_back (Call_SetAudioChannels channels) s = (GetAudioChannels s = channels)"
| "reads_back (Call_SetAudioSampleRate sampleRate) s = (GetAudioSampleRate s = sampleRate)"
| "reads_back (Call_SetAudioBitsPerSample bitsPerSample) s = (GetAudioBitsPerSample s = bitsPerSample)"
| "reads_back (Call_SetAudioIsDolbyAtmos isDolbyAtmos) s = (GetAudioIsDolbyAtmos s = isDolbyAtmos)"
| "reads_back (Call_SetAudioDtsXType dtsXType) s = (GetAudioDtsXType s = dtsXType)"
| "reads_back (Call_SetAudioLiveBitRate bitRate) s = (GetAudioLiveBitRate s = bitRate)"
| "reads_back (Call_SetAudioQueueLevel level) s = (GetAudioQueueLevel s = level)"
| "reads_back (Call_SetAudioQueueDataLevel level) s = (GetAudioQueueDataLevel s = level)"
| "reads_back (Call_SetRenderClockSync enabled) s = (IsRenderClockSync s = enabled)"
| "reads_back (Call_UpdateRenderBuffers queued discard free) s = (GetRenderBuffers s = (queued, discard, free))"
| "reads_back (Call_SetStateSeeking active) s = (IsSeeking s = active)"
| "reads_back (Call_SetStateRealtime state) s = (IsRealtimeStream s = state)"
| "reads_back (Call_SetSpeed speed) s = (GetNewSpeed s = speed)"
| "reads_back (Call_SetNewSpeed speed) s = (GetNewSpeed s = speed)"
| "reads_back (Call_SetFrameAdvance fa) s = (IsFrameAdvance s = fa)"
| "reads_back (Call_SetTempo tempo) s = (GetNewTempo s = tempo)"
| "reads_back (Call_SetNewTempo tempo) s = (GetNewTempo s = tempo)"
| "reads_back (Call_SetLevelVQ level) s = (GetLevelVQ s = level)"
| "reads_back (Call_SetGuiRender gui) s = (GetGuiRender s = gui)"
| "reads_back (Call_SetVideoRender video) s = (GetVideoRender s = video)"
| "reads_back (Call_SetPlayTimes start current min_t max_t) s = (GetMaxTime s = max_t)"
| "reads_back (Call_SetVideoSettings settings) s = (GetVideoSettings s = settings)"

subsection \<open>The video defaults\<close>

text \<open>
  The calls a bound cache receives from \<open>ResetVideoCodecInfo\<close>, with the default values
  written out.
\<close>

definition video_reset_calls :: "nat \<Rightarrow> DataCacheCall list" where
  "video_reset_calls DOLBY_VISION_OUTPUT_MODE_BYPASS =
     [DC_SetVideoPts 0,
      DC_SetVideoDecoderName ''unknown'' False,
      DC_SetVideoDeintMethod ''unknown'',
      DC_SetVideoPixelFormat ''unknown'',
      DC_SetVideoDimensions 0 0,
      DC_SetVideoFps 0,
      DC_SetVideoDAR 0,
      DC_SetStateSeeking False,
      DC_SetVideoStereoMode [],
      DC_SetVideoBitDepth 0,
      DC_SetVideoHdrType HDR_TYPE_NONE,
      DC_SetVideoSourceHdrType HDR_TYPE_NONE,
      DC_SetVideoSourceAdditionalHdrType HDR_TYPE_NONE,
      DC_SetVideoColorSpace AVCOL_SPC_UNSPECIFIED,
      DC_SetVideoColorRange AVCOL_RANGE_UNSPECIFIED,
      DC_SetVideoColorPrimaries AVCOL_PRI_UNSPECIFIED,
      DC_SetVideoColorTransferCharacteristic AVCOL_TRC_UNSPECIFIED,
      DC_SetVideoDoViFrameMetadata DOVIFrameMetadata_init,
      DC_SetVideoDoViStreamInfo DOVIStreamInfo_init,
      DC_SetVideoSourceDoViStreamInfo DOVIStreamInfo_init,
      DC_SetVideoDoViCodecFourCC [],
      DC_SetVideoHDRStaticMetadataInfo HDRStaticMetadataInfo_init,
      DC_SetVideoVS10Mode DOLBY_VISION_OUTPUT_MODE_BYPASS,
      DC_SetVideoLiveBitRate 0,
      DC_SetVideoQueueLevel 0,
      DC_SetVideoQueueDataLevel 0]"

text \<open>The members \<open>ResetVideoCodecInfo\<close> assigns hold their defaults.\<close>

definition video_defaults :: "nat \<Rightarrow> world \<Rightarrow> bool" where
  "video_defaults DOLBY_VISION_OUTPUT_MODE_BYPASS s =
     (m_videoPts s = 0 \<and>
      m_videoIsHWDecoder s = False \<and>
      m_videoDecoderName s = ''unknown'' \<and>
      m_videoDeintMethod s = ''unknown'' \<and>
      m_videoPixelFormat s = ''unknown'' \<and>
      m_videoStereoMode s = [] \<and>
      m_videoWidth s = 0 \<and>
      m_videoHeight s = 0 \<and>
      m_videoFPS s = 0 \<and>
      m_videoDAR s = 0 \<and>
      m_videoBitDepth s = 0 \<and>
      m_videoHdrType s = HDR_TYPE_NONE \<and>
      m_videoSourceHdrType s = HDR_TYPE_NONE \<and>
      m_videoSourceAdditionalHdrType s = HDR_TYPE_NONE \<and>
      m_videoColorSpace s = AVCOL_SPC_UNSPECIFIED \<and>
      m_videoColorRange s = AVCOL_RANGE_UNSPECIFIED \<and>
      m_videoColorPrimaries s = AVCOL_PRI_UNSPECIFIED \<and>
      m_videoColorTransferCharacteristic s = AVCOL_TRC_UNSPECIFIED \<and>
      m_videoDoViFrameMetadata s = DOVIFrameMetadata_init \<and>
      m_videoDoViStreamInfo s = DOVIStreamInfo_init \<and>
      m_videoSourceDoViStreamInfo s = DOVIStreamInfo_init \<and>
      m_videoDoViCodecFourCC s = [] \<and>
      m_videoHDRStaticMetadataInfo s = HDRStaticMetadataInfo_init \<and>
      m_videoVS10Mode s = DOLBY_VISION_OUTPUT_MODE_BYPASS \<and>
      m_videoLiveBitRate s = 0 \<and>
      m_videoQueueLevel s = 0 \<and>
      m_videoQueueDataLevel s = 0 \<and>
      m_videoIsInterlaced s = False \<and>
      m_deintMethods s = [VS_INTERLACEMETHOD_NONE] \<and>
      m_deintMethodDefault s = VS_INTERLACEMETHOD_NONE \<and>
      m_stateSeeking s = False)"

subsection \<open>Reading results and caches\<close>

text \<open>The calls the cache at an address has received, and a member of a returned object.\<close>

definition received :: "cache_ptr \<Rightarrow> world \<Rightarrow> DataCacheCall list" where
  "received p s = caches s p"

definition returned :: "(world \<Rightarrow> 'a) \<Rightarrow> error + world \<Rightarrow> 'a option" where
  "returned member r = (case r of Inl e \<Rightarrow> None | Inr s \<Rightarrow> Some (member s))"

subsection \<open>A concrete session\<close>

text \<open>
  An object in the middle of playback of an interlaced Dolby Vision stream: the cache at
  address 0 is bound and has been told that the video is interlaced; the renderer reports
  one deinterlacing method of its own. The trace starts empty here.
\<close>

definition playing :: world where
  "playing = \<lparr>
     m_videoPts = 90000,
     m_videoIsHWDecoder = True,
     m_videoDecoderName = ''am-h265'',
     m_videoDeintMethod = ''hardware'',
     m_videoPixelFormat = ''yuv420p10'',
     m_videoStereoMode = ''mono'',
     m_videoWidth = 3840,
     m_videoHeight = 2160,
     m_videoFPS = 25,
     m_videoDAR = 1.75,
     m_videoBitDepth = 10,
     m_videoHdrType = HDR_TYPE_other 1,
     m_videoSourceHdrType = HDR_TYPE_other 1,
     m_videoSourceAdditionalHdrType = HDR_TYPE_NONE,
     m_videoColorSpace = AVCOL_SPC_other 9,
     m_videoColorRange = AVCOL_RANGE_other 1,
     m_videoColorPrimaries = AVCOL_PRI_other 9,
     m_videoColorTransferCharacteristic = AVCOL_TRC_other 16,
     m_videoDoViFrameMetadata = DOVIFrameMetadata_other 1,
     m_videoDoViStreamMetadata = DOVIStreamMetadata_other 1,
     m_videoDoViStreamInfo = DOVIStreamInfo_other 1,
     m_videoSourceDoViStreamInfo = DOVIStreamInfo_other 1,
     m_videoDoViCodecFourCC = ''dvhe'',
     m_videoHDRStaticMetadataInfo = HDRStaticMetadataInfo_other 1,
     m_videoVS10Mode = 2,
     m_videoLiveBitRate = 40000000,
     m_videoQueueLevel = 50,
     m_videoQueueDataLevel = 60,
     m_videoIsInterlaced = True,
     m_deintMethods = [VS_INTERLACEMETHOD_NONE, VS_INTERLACEMETHOD_DEINTERLACE],
     m_deintMethodDefault = VS_INTERLACEMETHOD_DEINTERLACE,
     m_pixFormats = [AV_PIX_FMT_other 1],
     m_audioDecoderName = ''ffmpeg'',
     m_audioChannels = ''FL, FR'',
     m_audioSampleRate = 48000,
     m_audioBitsPerSample = 16,
     m_audioIsDolbyAtmos = False,
     m_audioDtsXType = DTS_X_NONE,
     m_audioLiveBitRate = 192000,
     m_audioQueueLevel = 40,
     m_audioQueueDataLevel = 45,
     m_isClockSync = True,
     m_renderInfo = \<lparr>renderInfo_deintMethods = [VS_INTERLACEMETHOD_DEINTERLACE_HALF]\<rparr>,
     m_renderBufQueued = 2,
     m_renderBufDiscard = 0,
     m_renderBufFree = 1,
     m_stateSeeking = False,
     m_realTimeStream = False,
     m_speed = 1,
     m_newSpeed = 1,
     m_tempo = 1,
     m_newTempo = 1,
     m_frameAdvance = False,
     m_levelVQ = 50,
     m_renderGuiLayer = False,
     m_renderVideoLayer = True,
     m_startTime = 0,
     m_time = 1000,
     m_timeMin = 0,
     m_timeMax = 7200000,
     m_videoSettings = CVideoSettings 0,
     m_dataCache = Some 0,
     caches = (\<lambda>p. [])(0 := [DC_SetVideoInterlaced True]),
     events = []\<rparr>"

section \<open>Basic facts\<close>

lemmas lock_defs = unique_lock_def unlock_def unlock_result_def

lemma cache_call_Some:
  "cache_call (Some p) c s =
     Inr (s\<lparr>caches := (caches s)(p := caches s p @ [c]), events := events s @ [Called p c]\<rparr>)"
  by (simp add: cache_call_def)

lemma cache_call_None: "cache_call None c s = Inl NullPointerDereference"
  by (simp add: cache_call_def)

text \<open>A block of calls through a non-null pointer appends the block to that cache.\<close>

lemma cache_calls_Some:
  "cache_calls (Some p) cs s =
     Inr (s\<lparr>caches := (caches s)(p := caches s p @ cs),
            events := events s @ map (Called p) cs\<rparr>)"
  by (induction cs arbitrary: s) (simp_all add: cache_call_Some)

lemmas setter_defs =
  SetVideoPts_def SetVideoDecoderName_def SetVideoDeintMethod_def SetVideoPixelFormat_def
  SetVideoStereoMode_def SetVideoDimensions_def SetVideoBitDepth_def SetVideoHdrType_def
  SetVideoSourceHdrType_def SetVideoSourceAdditionalHdrType_def SetVideoColorSpace_def
  SetVideoColorRange_def SetVideoColorPrimaries_def SetVideoColorTransferCharacteristic_def
  SetVideoDoViFrameMetadata_def SetVideoDoViStreamMetadata_def SetVideoDoViStreamInfo_def
  SetVideoSourceDoViStreamInfo_def SetVideoDoViCodecFourCC_def SetVideoHDRStaticMetadataInfo_def
  SetVideoVS10Mode_def SetVideoLiveBitRate_def SetVideoQueueLevel_def SetVideoQueueDataLevel_def
  SetVideoFps_def SetVideoDAR_def SetVideoInterlaced_def SetDeinterlacingMethodDefault_def
  SetPixFormats_def SetAudioDecoderName_def SetAudioChannels_def SetAudioSampleRate_def
  SetAudioBitsPerSample_def SetAudioIsDolbyAtmos_def SetAudioDtsXType_def SetAudioLiveBitRate_def
  SetAudioQueueLevel_def SetAudioQueueDataLevel_def SetRenderClockSync_def UpdateRenderBuffers_def
  SetStateSeeking_def SetStateRealtime_def SetSpeed_def SetNewSpeed_def SetFrameAdvance_def
  SetTempo_def SetNewTempo_def SetLevelVQ_def SetGuiRender_def SetVideoRender_def SetPlayTimes_def
  SetVideoSettings_def

lemmas getter_defs =
  GetVideoPts_def GetVideoDecoderName_def IsVideoHwDecoder_def GetVideoDeintMethod_def
  GetVideoPixelFormat_def GetVideoStereoMode_def GetVideoDimensions_def GetVideoBitDepth_def
  GetVideoHdrType_def GetVideoSourceHdrType_def GetVideoSourceAdditionalHdrType_def
  GetVideoColorSpace_def GetVideoColorRange_def GetVideoColorPrimaries_def
  GetVideoColorTransferCharacteristic_def GetVideoDoViFrameMetadata_def
  GetVideoDoViStreamMetadata_def GetVideoDoViStreamInfo_def GetVideoSourceDoViStreamInfo_def
  GetVideoDoViCodecFourCC_def GetVideoHDRStaticMetadataInfo_def GetVideoVS10Mode_def
  GetVideoLiveBitRate_def GetVideoQueueLevel_def GetVideoQueueDataLevel_def GetVideoFps_def
  GetVideoDAR_def GetVideoInterlaced_def GetDeinterlacingMethodDefault_def GetAudioDecoderName_def
  GetAudioChannels_def GetAudioSampleRate_def GetAudioBitsPerSample_def GetAudioIsDolbyAtmos_def
  GetAudioDtsXType_def GetAudioLiveBitRate_def GetAudioQueueLevel_def GetAudioQueueDataLevel_def
  IsRenderClockSync_def GetRenderBuffers_def IsSeeking_def IsRealtimeStream_def GetNewSpeed_def
  IsFrameAdvance_def GetNewTempo_def GetLevelVQ_def GetGuiRender_def GetVideoRender_def
  GetMaxTime_def GetVideoSettings_def
  GetPixFormats_def GetRenderFormats_def

text \<open>No setter fails, whether a cache is bound or not.\<close>

lemma run_setter_returns: "\<exists>s'. run_setter c s = Inr s'"
  by (cases c; cases "m_dataCache s")
     (simp_all add: setter_defs lock_defs Let_def cache_call_Some)

text \<open>The exact effect of \<open>ResetVideoCodecInfo\<close> on the members it assigns and on the caches.\<close>

lemma ResetVideoCodecInfo_effect:
  "\<exists>s'. ResetVideoCodecInfo B s = Inr s' \<and> video_defaults B s' \<and>
        m_dataCache s' = m_dataCache s \<and>
        caches s' = (case m_dataCache s of
                       None \<Rightarrow> caches s
                     | Some p \<Rightarrow> (caches s)(p := caches s p @ video_reset_calls B))"
  by (cases "m_dataCache s")
     (simp_all add: ResetVideoCodecInfo_def lock_defs Let_def cache_calls_Some video_defaults_def
        video_reset_calls_def del: cache_calls.simps)

lemma Supports_iff: "Supports method s \<longleftrightarrow> method \<in> set (m_deintMethods s)"
  by (auto simp: Supports_def find_None_iff)

text \<open>Taking and releasing a section changes the trace only.\<close>

lemma Supports_call_result:
  "fst (Supports_call method s) = Supports method s"
  "m_deintMethods (snd (Supports_call method s)) = m_deintMethods s"
  "m_renderInfo (snd (Supports_call method s)) = m_renderInfo s"
  by (simp_all add: Supports_call_def Supports_def lock_defs Let_def)

text \<open>The loop over the renderer's methods adds exactly the missing ones.\<close>

lemma append_render_set:
  "set (m_deintMethods (append_render_deintMethods xs s)) = set (m_deintMethods s) \<union> set xs"
  by (induction xs arbitrary: s)
     (auto simp: Supports_call_result Supports_iff split_def Let_def)

section \<open>The claims\<close>



text \<open>
  C2, as the code has it. \<open>IsTempoAllowed(t)\<close> is true exactly when \<open>t\<close> is strictly
  above 0.75 and strictly below the platform maximum or strictly below the configured
  maximum tempo, where the platform maximum is the single-precision constant \<open>1.55f\<close>,
  that is 6501171/4194304, which lies below 1.55; equivalently, \<open>t\<close> is strictly between
  the platform minimum 0.75 and the larger of that platform maximum and the configured
  maximum.
\<close>

theorem IsTempoAllowed_iff:
  "(IsTempoAllowed m_maxTempo t \<longleftrightarrow>
      t > 0.75 \<and> (t < 6501171 / 4194304 \<or> t < m_maxTempo)) \<and>
   (IsTempoAllowed m_maxTempo t \<longleftrightarrow>
      MinTempoPlatform < t \<and> t < max MaxTempoPlatform m_maxTempo) \<and>
   MinTempoPlatform = 0.75 \<and> MaxTempoPlatform = 6501171 / 4194304 \<and> MaxTempoPlatform < 1.55"
  by (auto simp: IsTempoAllowed_def MinTempoPlatform_def MaxTempoPlatform_def)

text \<open>
  C2 as stated fails at the float \<open>1.55f\<close> itself: it is above 0.75 and below the decimal
  1.55, so the claim allows it, and with a configured maximum of 1 the code refuses it.
\<close>

theorem IsTempoAllowed_counterexample:
  "\<not> IsTempoAllowed 1 (6501171 / 4194304) \<and>
   (6501171 / 4194304 :: real) > 0.75 \<and>
   (6501171 / 4194304 :: real) < 1.55"
  by (simp add: IsTempoAllowed_def MinTempoPlatform_def MaxTempoPlatform_def)

text \<open>
  C3, as the code has it. \<open>ResetVideoCodecInfo\<close> returns, and afterwards the members
  listed in \<open>video_defaults\<close> hold their defaults: the pts, sizes, rates, bit depth and
  queue levels are 0, the three names are "unknown", the stereo mode and the Dolby Vision
  FourCC are empty, the HDR types are \<open>HDR_TYPE_NONE\<close>, the four colour enums are
  unspecified, the Dolby Vision frame metadata, both stream infos and the HDR static
  metadata are value-initialised, the VS10 mode is \<open>DOLBY_VISION_OUTPUT_MODE_BYPASS\<close>, the
  interlaced and seeking flags are false, the supported deinterlacing methods are
  \<open>[NONE]\<close> and the default method is \<open>NONE\<close>. The bound cache stays bound and receives,
  after what it had and in this order, the calls of \<open>video_reset_calls\<close>; with no cache
  bound no cache changes.
\<close>

theorem ResetVideoCodecInfo_defaults:
  "\<exists>s'. ResetVideoCodecInfo B s = Inr s' \<and> video_defaults B s' \<and>
        m_dataCache s' = m_dataCache s \<and>
        (case m_dataCache s of
           None \<Rightarrow> caches s' = caches s
         | Some p \<Rightarrow> subseq (video_reset_calls B) (drop (length (received p s)) (received p s')))"
proof -
  from ResetVideoCodecInfo_effect [of B s] obtain s' where
    r: "ResetVideoCodecInfo B s = Inr s'" "video_defaults B s'" "m_dataCache s' = m_dataCache s"
    and c: "caches s' = (case m_dataCache s of
                       None \<Rightarrow> caches s
                     | Some p \<Rightarrow> (caches s)(p := caches s p @ video_reset_calls B))"
    by blast
  from c have "case m_dataCache s of
           None \<Rightarrow> caches s' = caches s
         | Some p \<Rightarrow> subseq (video_reset_calls B) (drop (length (received p s)) (received p s'))"
    by (simp add: received_def split: option.split)
  with r show ?thesis by blast
qed

text \<open>
  C3 as stated fails on the playing session: after the reset the Dolby Vision stream
  metadata and the pixel formats are what they were, the interlaced flag is false in the
  object while the last word the cache had on it is still true, and the cache received
  the 26 calls of \<open>video_reset_calls\<close> and nothing about the interlaced flag or the
  deinterlacing methods.
\<close>

theorem ResetVideoCodecInfo_counterexample:
  "returned m_videoDoViStreamMetadata (ResetVideoCodecInfo 5 playing) = Some (DOVIStreamMetadata_other 1) \<and>
   returned m_pixFormats (ResetVideoCodecInfo 5 playing) = Some [AV_PIX_FMT_other 1] \<and>
   returned m_videoIsInterlaced (ResetVideoCodecInfo 5 playing) = Some False \<and>
   returned (received 0) (ResetVideoCodecInfo 5 playing)
     = Some (DC_SetVideoInterlaced True # video_reset_calls 5) \<and>
   DC_SetVideoInterlaced False \<notin> set (video_reset_calls 5)"
  by (simp add: ResetVideoCodecInfo_def lock_defs Let_def cache_calls_Some video_reset_calls_def
      playing_def returned_def received_def del: cache_calls.simps)

text \<open>
  C4: from every state, \<open>SetDataCache\<close> with a cache object returns with that cache bound
  and both render flags false, and the cache has received, last, \<open>SetGuiRender(false)\<close> and
  \<open>SetVideoRender(false)\<close>, after the calls of the video reset; the two calls are made
  whatever the flags were before.
\<close>

theorem SetDataCache_rebinds:
  "\<exists>s'. SetDataCache B (Some p) s = Inr s' \<and>
        m_dataCache s' = Some p \<and>
        m_renderGuiLayer s' = False \<and>
        m_renderVideoLayer s' = False \<and>
        received p s' = received p s @ video_reset_calls B @ [DC_SetGuiRender False, DC_SetVideoRender False]"
  by (simp add: SetDataCache_def and_then_def ResetVideoCodecInfo_def lock_defs Let_def
      cache_calls_Some cache_call_Some video_reset_calls_def received_def del: cache_calls.simps)

text \<open>
  C5: after \<open>UpdateDeinterlacingMethods\<close>, for any list and any prior state,
  \<open>Supports(VS_INTERLACEMETHOD_NONE)\<close> is true.
\<close>

theorem Supports_NONE_after_Update:
  "Supports VS_INTERLACEMETHOD_NONE (UpdateDeinterlacingMethods methods s)"
  by (simp add: UpdateDeinterlacingMethods_def lock_defs Let_def split_def Supports_iff
      Supports_call_result)

text \<open>
  C6: if \<open>VS_INTERLACEMETHOD_NONE\<close> is neither in the caller's list nor among the methods
  the renderer reports, it is the first element of the supported methods after
  \<open>UpdateDeinterlacingMethods\<close>, and the elements behind it are, as a set, the caller's
  and the renderer's methods.
\<close>

theorem NONE_first_when_absent:
  assumes "VS_INTERLACEMETHOD_NONE \<notin> set methods \<union> set (renderInfo_deintMethods (m_renderInfo s))"
  shows "hd (m_deintMethods (UpdateDeinterlacingMethods methods s)) = VS_INTERLACEMETHOD_NONE \<and>
         set (tl (m_deintMethods (UpdateDeinterlacingMethods methods s)))
           = set methods \<union> set (renderInfo_deintMethods (m_renderInfo s))"
  using assms
  by (simp add: UpdateDeinterlacingMethods_def lock_defs Let_def split_def Supports_iff
      Supports_call_result append_render_set)

theorem NONE_first_when_absent_witness:
  "VS_INTERLACEMETHOD_NONE
     \<notin> set [VS_INTERLACEMETHOD_DEINTERLACE] \<union> set (renderInfo_deintMethods (m_renderInfo playing)) \<and>
   hd (m_deintMethods (UpdateDeinterlacingMethods [VS_INTERLACEMETHOD_DEINTERLACE] playing))
     = VS_INTERLACEMETHOD_NONE \<and>
   m_deintMethods (UpdateDeinterlacingMethods [VS_INTERLACEMETHOD_DEINTERLACE] playing)
     = [VS_INTERLACEMETHOD_NONE, VS_INTERLACEMETHOD_DEINTERLACE, VS_INTERLACEMETHOD_DEINTERLACE_HALF]"
  using NONE_first_when_absent [of "[VS_INTERLACEMETHOD_DEINTERLACE]" playing]
  by (simp add: UpdateDeinterlacingMethods_def Supports_call_def lock_defs Let_def Supports_def
      playing_def)

text \<open>
  C7, as the code has it. For every setter call other than \<open>SetPixFormats\<close> with the
  empty list, the call returns and the paired getter then returns the arguments; after
  \<open>SetPixFormats\<close> with the empty list, \<open>GetPixFormats\<close> returns the render-format
  fallback \<open>[AV_PIX_FMT_YUV420P]\<close>.
\<close>

theorem get_after_set:
  "(c \<noteq> Call_SetPixFormats [] \<longrightarrow> (\<exists>s'. run_setter c s = Inr s' \<and> reads_back c s')) \<and>
   GetPixFormats (SetPixFormats [] s) = [AV_PIX_FMT_YUV420P]"
proof -
  have "\<exists>s'. run_setter c s = Inr s' \<and> reads_back c s'" if "c \<noteq> Call_SetPixFormats []"
    using that
    by (cases c; cases "m_dataCache s")
       (simp_all add: setter_defs getter_defs lock_defs Let_def cache_call_Some)
  moreover have "GetPixFormats (SetPixFormats [] s) = [AV_PIX_FMT_YUV420P]"
    by (simp add: GetPixFormats_def GetRenderFormats_def SetPixFormats_def lock_defs)
  ultimately show ?thesis by blast
qed

theorem get_after_set_witness:
  "Call_SetStateSeeking True \<noteq> Call_SetPixFormats [] \<and>
   returned IsSeeking (run_setter (Call_SetStateSeeking True) playing) = Some True \<and>
   returned IsRealtimeStream (run_setter (Call_SetStateRealtime True) playing) = Some True"
  using get_after_set [of "Call_SetStateSeeking True" playing]
        get_after_set [of "Call_SetStateRealtime True" playing]
  by (auto simp: returned_def)

text \<open>
  C7 as stated fails for the pixel formats: after \<open>SetPixFormats\<close> with the empty list,
  \<open>GetPixFormats\<close> returns one format, not the empty list.
\<close>

theorem get_after_set_counterexample:
  "GetPixFormats (SetPixFormats [] playing) = [AV_PIX_FMT_YUV420P] \<and>
   \<not> reads_back (Call_SetPixFormats []) (SetPixFormats [] playing)"
  by (simp add: GetPixFormats_def GetRenderFormats_def SetPixFormats_def lock_defs)

text \<open>
  C8: whatever the registry held, after \<open>RegisterProcessControl(id, f)\<close> it holds the one
  entry that maps \<open>id\<close> to \<open>f\<close>, and \<open>CreateInstance\<close> then calls that factory and no
  other, returning its object, or a new \<open>CProcessInfo\<close> when the factory returns null.
\<close>

theorem Register_single_entry:
  "RegisterProcessControl ident createFunc m = [(ident, createFunc)] \<and>
   map_of (RegisterProcessControl ident createFunc m) = [ident \<mapsto> createFunc] \<and>
   length (RegisterProcessControl ident createFunc m) = 1 \<and>
   snd (CreateInstance new_obj (RegisterProcessControl ident createFunc m)) = [ident] \<and>
   fst (CreateInstance new_obj (RegisterProcessControl ident createFunc m))
     = (case createFunc () of Some ret \<Rightarrow> ret | None \<Rightarrow> new_obj)"
  by (simp add: RegisterProcessControl_def map_clear_def CreateInstance_def split: option.split)

text \<open>
  C9: \<open>SetDataCache\<close> with the null pointer is a null-pointer dereference, from every
  state, and with a cache object it returns; every setter, both codec resets and
  \<open>SeekFinished\<close> return from every state, bound cache or not, because they test the
  pointer first.
\<close>

theorem SetDataCache_null:
  "SetDataCache B None s = Inl NullPointerDereference \<and>
   (\<exists>s'. SetDataCache B (Some p) s = Inr s') \<and>
   (\<exists>s'. run_setter c s = Inr s') \<and>
   (\<exists>s'. ResetVideoCodecInfo B s = Inr s') \<and>
   (\<exists>s'. ResetAudioCodecInfo s = Inr s') \<and>
   (\<exists>s'. SeekFinished offset s = Inr s')"
proof -
  have 1: "SetDataCache B None s = Inl NullPointerDereference"
    by (simp add: SetDataCache_def and_then_def ResetVideoCodecInfo_def lock_defs Let_def
        cache_call_None)
  have 2: "\<exists>s'. SetDataCache B (Some p) s = Inr s'"
    by (simp add: SetDataCache_def and_then_def ResetVideoCodecInfo_def lock_defs Let_def
        cache_calls_Some cache_call_Some del: cache_calls.simps)
  have 3: "\<exists>s'. run_setter c s = Inr s'"
    by (rule run_setter_returns)
  have 4: "\<exists>s'. ResetVideoCodecInfo B s = Inr s'"
    using ResetVideoCodecInfo_effect [of B s] by blast
  have 5: "\<exists>s'. ResetAudioCodecInfo s = Inr s'"
    by (cases "m_dataCache s")
       (simp_all add: ResetAudioCodecInfo_def lock_defs Let_def cache_calls_Some
          del: cache_calls.simps)
  have 6: "\<exists>s'. SeekFinished offset s = Inr s'"
    by (cases "m_dataCache s") (simp_all add: SeekFinished_def lock_defs Let_def cache_call_Some)
  from 1 2 3 4 5 6 show ?thesis by blast
qed

text \<open>
  C10: \<open>GetPixFormats\<close> never returns the empty list: it returns the stored formats when
  there are some and \<open>[AV_PIX_FMT_YUV420P]\<close>, the render formats, when the stored list is
  empty, as it is after \<open>SetPixFormats\<close> with an empty list.
\<close>

theorem GetPixFormats_nonempty:
  "GetPixFormats s \<noteq> [] \<and>
   GetPixFormats s = (if m_pixFormats s = [] then [AV_PIX_FMT_YUV420P] else m_pixFormats s) \<and>
   GetPixFormats (SetPixFormats formats s) = (if formats = [] then [AV_PIX_FMT_YUV420P] else formats) \<and>
   GetRenderFormats = [AV_PIX_FMT_YUV420P]"
  by (simp add: GetPixFormats_def GetRenderFormats_def SetPixFormats_def lock_defs)

end
